theory Spec2Isabelle
  imports Main
begin

section \<open>Strings as the script uses them\<close>

text \<open>
  A Python \<open>str\<close> is modelled as a \<open>string\<close>, a list of 8-bit characters: the code points
  below 256. The character predicates of Python and of \<open>re\<close> are given on all of them.
\<close>

text \<open>\<open>s.split(c)\<close> for a one-character separator: never empty, a separator at either end
  gives an empty segment.\<close>

fun split_on :: "char \<Rightarrow> string \<Rightarrow> string list" where
  "split_on c [] = [[]]"
| "split_on c (x # xs) =
     (if x = c then [] # split_on c xs
      else (case split_on c xs of
              [] \<Rightarrow> [[x]]
            | seg # segs \<Rightarrow> (x # seg) # segs))"

text \<open>\<open>s.startswith(pre)\<close> and \<open>s.endswith(suf)\<close>.\<close>

definition startswith :: "string \<Rightarrow> string \<Rightarrow> bool" where
  "startswith s pre = (take (length pre) s = pre)"

definition endswith :: "string \<Rightarrow> string \<Rightarrow> bool" where
  "endswith s suf = (length suf \<le> length s \<and> drop (length s - length suf) s = suf)"

text \<open>\<open>sub in s\<close> on strings.\<close>

fun str_contains :: "string \<Rightarrow> string \<Rightarrow> bool" where
  "str_contains [] sub = (sub = [])"
| "str_contains (x # xs) sub = (startswith (x # xs) sub \<or> str_contains xs sub)"

text \<open>\<open>xs.index(x)\<close>, called only under \<open>x in xs\<close>.\<close>

fun index_of :: "'a \<Rightarrow> 'a list \<Rightarrow> nat" where
  "index_of x [] = 0"
| "index_of x (y # ys) = (if x = y then 0 else Suc (index_of x ys))"

text \<open>The decimal digits.\<close>

definition is_digit :: "char \<Rightarrow> bool" where
  "is_digit c = (c \<in> set ''0123456789'')"

text \<open>The characters on which \<open>str.isdigit\<close> is true: the decimal digits and the
  superscripts two, three and one.\<close>

definition is_digit_char :: "char \<Rightarrow> bool" where
  "is_digit_char c = (is_digit c \<or> c \<in> set [CHR 0xB2, CHR 0xB3, CHR 0xB9])"

text \<open>\<open>s.isdigit()\<close>: false on the empty string.\<close>

definition isdigit :: "string \<Rightarrow> bool" where
  "isdigit s = (s \<noteq> [] \<and> list_all is_digit_char s)"

section \<open>Platform tables\<close>

definition PLATFORM_MAPPING :: "(string \<times> string) list" where
  "PLATFORM_MAPPING =
    [(''8000'', ''8000''),
     (''8101'', ''8101-32H''),
     (''8102'', ''8102-64H''),
     (''8122'', ''8122-64EHF-O''),
     (''8201'', ''8201-32FH''),
     (''8202'', ''8202''),
     (''8212'', ''8212-48FH-M''),
     (''8711'', ''8711-32FH-M''),
     (''8804'', ''8804''),
     (''8808'', ''8800-lc-36fh-m''),
     (''8101-32FH'', ''8101-32FH''),
     (''8101-32H'', ''8101-32H''),
     (''8102-64H'', ''8102-64H''),
     (''8111-32EH'', ''8111-32EH''),
     (''8122-64EHF-O'', ''8122-64EHF-O''),
     (''8201-24H8FH'', ''8201-24H8FH''),
     (''8201-sys'', ''8201-sys''),
     (''8201-32FH'', ''8201-32FH''),
     (''8202-32FH-M'', ''8202-32FH-M''),
     (''8212-48FH-M'', ''8212-48FH-M''),
     (''8711-32FH-M'', ''8711-32FH-M''),
     (''ncs1010'', ''ncs1010'')]"

text \<open>The dictionary is iterated in insertion order, so the order of the pairs is kept.\<close>

definition QCOW2_TO_PLATFORM :: "(string \<times> string) list" where
  "QCOW2_TO_PLATFORM =
    [(''8000-x64'', ''8201-sys''),
     (''8101-x64'', ''8101-32H''),
     (''8101-32FH-x64'', ''8101-32FH''),
     (''8102-x64'', ''8102-64H''),
     (''8111-32EH-x64'', ''8111-32EH''),
     (''8122-64EHF-O-x64'', ''8122-64EHF-O''),
     (''8201-x64'', ''8201-32FH''),
     (''8202-x64'', ''8202''),
     (''8202-32FH-M-x64'', ''8202-32FH-M''),
     (''8212-48FH-M-x64'', ''8212-48FH-M''),
     (''8711-32FH-M-x64'', ''8711-32FH-M'')]"

text \<open>\<open>platform_mapping.get(k)\<close>.\<close>

definition platform_mapping :: "string \<Rightarrow> string option" where
  "platform_mapping = map_of PLATFORM_MAPPING"

section \<open>Stage 1: platform from the archive filename\<close>

text \<open>An exception: its class and its message.\<close>

datatype error = ValueError string | OSError string | CreateSingleDockerError string

text \<open>\<open>str(e)\<close>\<close>

fun error_text :: "error \<Rightarrow> string" where
  "error_text (ValueError msg) = msg"
| "error_text (OSError msg) = msg"
| "error_text (CreateSingleDockerError msg) = msg"

text \<open>The lookup after a marker segment (\<open>d\<close> or \<open>f\<close>): the segment that follows the
  first occurrence of the marker, when there is one.\<close>

definition part_after :: "string \<Rightarrow> string list \<Rightarrow> string option" where
  "part_after marker parts =
     (if marker \<in> set parts then
        (let i = index_of marker parts in
         if i + 1 < length parts then Some (parts ! (i + 1)) else None)
      else None)"

text \<open>The distributed branch: one lookup of the segment after \<open>d\<close>.\<close>

definition lookup_d :: "string list \<Rightarrow> string option" where
  "lookup_d parts =
     (case part_after ''d'' parts of
        None \<Rightarrow> None
      | Some platform_part \<Rightarrow> platform_mapping platform_part)"

text \<open>The fixed branch: the segment after \<open>f\<close>, then its prefix before the first \<open>-\<close>.\<close>

definition lookup_f :: "string list \<Rightarrow> string option" where
  "lookup_f parts =
     (case part_after ''f'' parts of
        None \<Rightarrow> None
      | Some platform_part \<Rightarrow>
          (case platform_mapping platform_part of
             Some v \<Rightarrow> Some v
           | None \<Rightarrow>
               (let base_platform =
                      (if CHR ''-'' \<in> set platform_part
                       then hd (split_on CHR ''-'' platform_part) else platform_part)
                in platform_mapping base_platform)))"

definition is_platform_token :: "string \<Rightarrow> bool" where
  "is_platform_token part = (isdigit part \<and> length part = 4 \<and> startswith part ''8'')"

text \<open>The fallback loop over the segments: the first 4-digit token that begins with 8.\<close>

fun scan_parts :: "string list \<Rightarrow> string option" where
  "scan_parts [] = None"
| "scan_parts (part # rest) =
     (if is_platform_token part
      then Some (case platform_mapping part of Some v \<Rightarrow> v | None \<Rightarrow> part)
      else scan_parts rest)"

text \<open>The body of the \<open>try\<close> block; \<open>Inl\<close> is the raised exception.\<close>

definition extract_platform_body :: "string \<Rightarrow> error + string" where
  "extract_platform_body filename =
     (let parts = split_on CHR ''-'' filename in
      case lookup_d parts of
        Some v \<Rightarrow> Inr v
      | None \<Rightarrow>
          (case lookup_f parts of
             Some v \<Rightarrow> Inr v
           | None \<Rightarrow>
               if str_contains filename ''ncs1010'' then Inr ''ncs1010''
               else (case scan_parts parts of
                       Some v \<Rightarrow> Inr v
                     | None \<Rightarrow> Inl (ValueError ''Could not extract platform from filename''))))"

definition DEFAULT_PLATFORM :: string where
  "DEFAULT_PLATFORM = ''8201-32FH''"

definition extract_platform_from_filename :: "string \<Rightarrow> string" where
  "extract_platform_from_filename filename =
     (case extract_platform_body filename of
        Inr v \<Rightarrow> v
      | Inl e \<Rightarrow> DEFAULT_PLATFORM)"

section \<open>The regular expressions of the script\<close>

text \<open>
  The patterns the script gives to \<open>re\<close> use literals, character classes, greedy and lazy
  repetition of a character class, an optional group, alternation, capturing groups and
  \<open>$\<close>. The matcher below returns every way a pattern matches a prefix of the input, in
  the order in which the backtracking matcher of \<open>re\<close> tries them, so the head of the list
  is the match \<open>re\<close> reports.
\<close>

datatype rx =
    Str string                  \<comment> \<open>a literal string\<close>
  | Cls "char \<Rightarrow> bool"           \<comment> \<open>one character of a class\<close>
  | Plus "char \<Rightarrow> bool"          \<comment> \<open>\<open>c+\<close>, greedy\<close>
  | LazyStar "char \<Rightarrow> bool"      \<comment> \<open>\<open>c*?\<close>\<close>
  | Rep nat "char \<Rightarrow> bool"       \<comment> \<open>\<open>c{n}\<close>\<close>
  | Seq rx rx
  | Alt rx rx
  | Opt rx                      \<comment> \<open>\<open>(?:r)?\<close>, greedy\<close>
  | Grp nat rx                  \<comment> \<open>capturing group number n\<close>
  | Eol                         \<comment> \<open>\<open>$\<close>: at the end, or before a newline that ends the string\<close>

text \<open>The upper-case letters below 256 and, in the same order, their lower-case forms.\<close>

definition upper_letters :: string where
  "upper_letters = ''ABCDEFGHIJKLMNOPQRSTUVWXYZ'' @
     [CHR 0xC0, CHR 0xC1, CHR 0xC2, CHR 0xC3, CHR 0xC4, CHR 0xC5, CHR 0xC6, CHR 0xC7,
     CHR 0xC8, CHR 0xC9, CHR 0xCA, CHR 0xCB, CHR 0xCC, CHR 0xCD, CHR 0xCE, CHR 0xCF, CHR
     0xD0, CHR 0xD1, CHR 0xD2, CHR 0xD3, CHR 0xD4, CHR 0xD5, CHR 0xD6, CHR 0xD8, CHR
     0xD9, CHR 0xDA, CHR 0xDB, CHR 0xDC, CHR 0xDD, CHR 0xDE]"

definition lower_letters :: string where
  "lower_letters = ''abcdefghijklmnopqrstuvwxyz'' @
     [CHR 0xE0, CHR 0xE1, CHR 0xE2, CHR 0xE3, CHR 0xE4, CHR 0xE5, CHR 0xE6, CHR 0xE7,
     CHR 0xE8, CHR 0xE9, CHR 0xEA, CHR 0xEB, CHR 0xEC, CHR 0xED, CHR 0xEE, CHR 0xEF, CHR
     0xF0, CHR 0xF1, CHR 0xF2, CHR 0xF3, CHR 0xF4, CHR 0xF5, CHR 0xF6, CHR 0xF8, CHR
     0xF9, CHR 0xFA, CHR 0xFB, CHR 0xFC, CHR 0xFD, CHR 0xFE]"

definition lower_char :: "char \<Rightarrow> char" where
  "lower_char c =
     (case map_of (zip upper_letters lower_letters) c of
        Some l \<Rightarrow> l
      | None \<Rightarrow> c)"

text \<open>\<open>s.lower()\<close>.\<close>

definition lower :: "string \<Rightarrow> string" where
  "lower s = map lower_char s"

text \<open>\<open>\d\<close>, \<open>\w\<close>, \<open>\s\<close> and \<open>.\<close> of a pattern on \<open>str\<close>: the decimal digits; the
  alphanumeric characters and the underscore; the white-space characters, which are
  also the ones \<open>str.strip\<close> removes; every character but the newline.\<close>

definition cls_d :: "char \<Rightarrow> bool" where
  "cls_d c = is_digit c"

definition cls_w :: "char \<Rightarrow> bool" where
  "cls_w c =
     (c \<in> set ''0123456789_'' \<or> c \<in> set upper_letters \<or> c \<in> set lower_letters \<or>
      c \<in> set [CHR 0xAA, CHR 0xB2, CHR 0xB3, CHR 0xB5, CHR 0xB9, CHR 0xBA, CHR 0xBC,
               CHR 0xBD, CHR 0xBE, CHR 0xDF, CHR 0xFF])"

definition is_space :: "char \<Rightarrow> bool" where
  "is_space c = (of_char c \<in> set [9, 10, 11, 12, 13, 28, 29, 30, 31, 32, 133, 160 :: nat])"

definition cls_dot :: "char \<Rightarrow> bool" where
  "cls_dot c = (c \<noteq> CHR 0x0A)"

type_synonym groups = "(nat \<times> string) list"

text \<open>A literal at the start of the input; under \<open>re.IGNORECASE\<close> (flag \<open>ic\<close>) the
  characters are compared in lower case.\<close>

fun lit_matches :: "bool \<Rightarrow> string \<Rightarrow> string \<Rightarrow> bool" where
  "lit_matches ic [] s = True"
| "lit_matches ic (c # w) [] = False"
| "lit_matches ic (c # w) (x # s) =
     (if (if ic then lower_char x = lower_char c else x = c) then lit_matches ic w s
      else False)"

fun rx_run :: "bool \<Rightarrow> rx \<Rightarrow> groups \<times> string \<Rightarrow> (groups \<times> string) list" where
  "rx_run ic (Str w) (g, s) = (if lit_matches ic w s then [(g, drop (length w) s)] else [])"
| "rx_run ic (Cls p) (g, s) =
     (case s of [] \<Rightarrow> [] | x # xs \<Rightarrow> if p x then [(g, xs)] else [])"
| "rx_run ic (Plus p) (g, s) =
     map (\<lambda>n. (g, drop n s)) (rev [1 ..< Suc (length (takeWhile p s))])"
| "rx_run ic (LazyStar p) (g, s) =
     map (\<lambda>n. (g, drop n s)) [0 ..< Suc (length (takeWhile p s))]"
| "rx_run ic (Rep n p) (g, s) =
     (if n \<le> length (takeWhile p s) then [(g, drop n s)] else [])"
| "rx_run ic (Seq a b) st = concat (map (rx_run ic b) (rx_run ic a st))"
| "rx_run ic (Alt a b) st = rx_run ic a st @ rx_run ic b st"
| "rx_run ic (Opt a) st = rx_run ic a st @ [st]"
| "rx_run ic (Grp n a) (g, s) =
     map (\<lambda>(g', r). ((n, take (length s - length r) s) # g', r)) (rx_run ic a (g, s))"
| "rx_run ic Eol (g, s) = (if s = [] \<or> s = [CHR 0x0A] then [(g, s)] else [])"

text \<open>\<open>re.match(pattern, s)\<close>: the groups of the first match at the start of \<open>s\<close>.\<close>

definition re_match :: "bool \<Rightarrow> rx \<Rightarrow> string \<Rightarrow> groups option" where
  "re_match ic r s = (case rx_run ic r ([], s) of [] \<Rightarrow> None | (g, rest) # _ \<Rightarrow> Some g)"

text \<open>\<open>re.search(pattern, s)\<close>: the first match at the leftmost position that has one.\<close>

fun re_search :: "bool \<Rightarrow> rx \<Rightarrow> string \<Rightarrow> groups option" where
  "re_search ic r [] = re_match ic r []"
| "re_search ic r (x # xs) =
     (case re_match ic r (x # xs) of Some g \<Rightarrow> Some g | None \<Rightarrow> re_search ic r xs)"

text \<open>\<open>match.group(n)\<close> of a group that took part in the match.\<close>

definition group :: "groups \<Rightarrow> nat \<Rightarrow> string" where
  "group g n = (case map_of g n of Some w \<Rightarrow> w | None \<Rightarrow> [])"

text \<open>\<open>re.sub(pattern, '', s)\<close>: every match, leftmost first, is removed; the scan
  goes on after the match, or one character further where nothing was consumed.\<close>

function re_sub_empty :: "rx \<Rightarrow> string \<Rightarrow> string" where
  "re_sub_empty r s =
     (case rx_run False r ([], s) of
        (g, rest) # _ \<Rightarrow>
          if length rest < length s then re_sub_empty r rest
          else (case s of [] \<Rightarrow> [] | x # xs \<Rightarrow> x # re_sub_empty r xs)
      | [] \<Rightarrow> (case s of [] \<Rightarrow> [] | x # xs \<Rightarrow> x # re_sub_empty r xs))"
  by pat_completeness auto
termination
  by (relation "measure (\<lambda>(r, s). length s)") auto

text \<open>\<open>s.replace(old, '')\<close> for a non-empty \<open>old\<close>: every occurrence, leftmost first.\<close>

function str_remove :: "string \<Rightarrow> string \<Rightarrow> string" where
  "str_remove old s =
     (case s of
        [] \<Rightarrow> []
      | x # xs \<Rightarrow>
          if old \<noteq> [] \<and> startswith s old then str_remove old (drop (length old) s)
          else x # str_remove old xs)"
  by pat_completeness auto
termination
  by (relation "measure (\<lambda>(old, s). length s)") auto

text \<open>\<open>s.strip()\<close>.\<close>

definition strip :: "string \<Rightarrow> string" where
  "strip s = rev (dropWhile is_space (rev (dropWhile is_space s)))"

section \<open>Stage 2: platform from an extracted disk-image filename\<close>

text \<open>\<open>r'-x64-\d+\.\d+\.\d+$|-\d+\.\d+\.\d+$'\<close>\<close>

definition VERSION_TAIL :: rx where
  "VERSION_TAIL =
     Seq (Plus cls_d) (Seq (Str ''.'') (Seq (Plus cls_d) (Seq (Str ''.'')
       (Seq (Plus cls_d) Eol))))"

definition version_pattern :: rx where
  "version_pattern = Alt (Seq (Str ''-x64-'') VERSION_TAIL) (Seq (Str ''-'') VERSION_TAIL)"

text \<open>\<open>r'^(\d{4})'\<close>, given to \<open>re.match\<close>, which anchors at the start itself.\<close>

definition base_platform_pattern :: rx where
  "base_platform_pattern = Grp 1 (Rep 4 cls_d)"

text \<open>The two loops over \<open>qcow2_to_platform.items()\<close>: the first pair whose key satisfies the
  test gives the result.\<close>

fun first_pattern_match :: "(string \<Rightarrow> bool) \<Rightarrow> (string \<times> string) list \<Rightarrow> string option" where
  "first_pattern_match test [] = None"
| "first_pattern_match test ((qcow2_pattern, platform) # rest) =
     (if test qcow2_pattern then Some platform else first_pattern_match test rest)"

text \<open>The function catches every exception and returns \<open>None\<close> then; none of the steps
  below raises on a string.\<close>

definition extract_platform_from_qcow2_filename :: "string \<Rightarrow> string option" where
  "extract_platform_from_qcow2_filename qcow2_filename =
     (let base_name = str_remove ''.qcow2'' qcow2_filename;
          base_name = re_sub_empty version_pattern base_name
      in case first_pattern_match (\<lambda>qcow2_pattern. base_name = qcow2_pattern)
                QCOW2_TO_PLATFORM of
           Some platform \<Rightarrow> Some platform
         | None \<Rightarrow>
             (case first_pattern_match
                     (\<lambda>qcow2_pattern. base_name = str_remove ''-x64'' qcow2_pattern)
                     QCOW2_TO_PLATFORM of
                Some platform \<Rightarrow> Some platform
              | None \<Rightarrow>
                  (case re_match False base_platform_pattern base_name of
                     Some m \<Rightarrow>
                       (let base_platform = group m 1
                        in Some (case platform_mapping base_platform of
                                   Some v \<Rightarrow> v
                                 | None \<Rightarrow> base_platform))
                   | None \<Rightarrow> None)))"

section \<open>Paths\<close>

text \<open>
  A path is the string that names it. \<open>Path.name\<close> is the final component;
  \<open>Path.suffix\<close> is the part of the name from its last dot on, empty when the name has
  no dot, begins with its only dot or ends with a dot.
\<close>

definition path_name :: "string \<Rightarrow> string" where
  "path_name p = rev (takeWhile (\<lambda>c. c \<noteq> CHR ''/'') (rev p))"

definition path_suffix :: "string \<Rightarrow> string" where
  "path_suffix p =
     (let name = path_name p in
      if CHR ''.'' \<notin> set name then []
      else (let i = length name - length (takeWhile (\<lambda>c. c \<noteq> CHR ''.'') (rev name)) - 1
            in if 0 < i \<and> i < length name - 1 then drop i name else []))"

text \<open>\<open>sep.join(parts)\<close>\<close>

fun join_with :: "char \<Rightarrow> string list \<Rightarrow> string" where
  "join_with c [] = []"
| "join_with c [x] = x"
| "join_with c (x # y # ys) = x @ [c] @ join_with c (y # ys)"

text \<open>
  \<open>str(Path(s))\<close>: the leading slashes become one, or stay two when there are exactly
  two; empty components and \<open>.\<close> components are dropped; the empty path is \<open>.\<close>.
\<close>

definition path_str :: "string \<Rightarrow> string" where
  "path_str s =
     (let stripped = dropWhile (\<lambda>c. c = CHR ''/'') s;
          slashes = length s - length stripped;
          root = (if slashes = 0 then [] else if slashes = 2 then ''//'' else ''/'');
          parts = filter (\<lambda>x. x \<noteq> [] \<and> x \<noteq> ''.'') (split_on CHR ''/'' stripped);
          formatted = root @ join_with CHR ''/'' parts
      in if formatted = [] then ''.'' else formatted)"

section \<open>The run context\<close>

record run_context =
  iso_tar_path :: string
  image_tar_path :: string
  platform :: "string option"
  docker_name :: "string option"
  target :: string
  cleanup :: bool
  temp_dir :: "string option"
  iso_path :: "string option"
  sdk_version :: "string option"
  bake_and_build_script :: string

text \<open>Python's truth value of an optional string: \<open>None\<close> and \<open>''\<close> are false.\<close>

definition truthy :: "string option \<Rightarrow> bool" where
  "truthy v = (case v of None \<Rightarrow> False | Some s \<Rightarrow> s \<noteq> [])"

text \<open>\<open>__init__\<close> stores the arguments; \<open>--platform\<close> arrives as \<open>platform\<close>, and the two
  archive paths are the ones \<open>Path.resolve\<close> has returned.\<close>

definition init_context ::
  "string \<Rightarrow> string \<Rightarrow> string option \<Rightarrow> string option \<Rightarrow> string \<Rightarrow> bool \<Rightarrow> string \<Rightarrow> run_context" where
  "init_context iso_tar image_tar platform_arg docker_name_arg target_arg cleanup_arg script =
     \<lparr> iso_tar_path = iso_tar, image_tar_path = image_tar, platform = platform_arg,
       docker_name = docker_name_arg, target = target_arg, cleanup = cleanup_arg,
       temp_dir = None, iso_path = None, sdk_version = None,
       bake_and_build_script = script \<rparr>"

text \<open>\<open>_validate_inputs\<close>; \<open>ex\<close> tells which paths exist.\<close>

definition validate_inputs :: "(string \<Rightarrow> bool) \<Rightarrow> run_context \<Rightarrow> error + run_context" where
  "validate_inputs ex ctx =
     (if \<not> ex (iso_tar_path ctx)
        then Inl (CreateSingleDockerError (''ISO tar file not found: '' @ iso_tar_path ctx))
      else if \<not> ex (image_tar_path ctx)
        then Inl (CreateSingleDockerError (''Image tar file not found: '' @ image_tar_path ctx))
      else if \<not> ex (bake_and_build_script ctx)
        then Inl (CreateSingleDockerError
                    (''bake-and-build.sh not found: '' @ bake_and_build_script ctx))
      else if \<not> truthy (platform ctx)
        then Inr (ctx\<lparr>platform :=
                     Some (extract_platform_from_filename (path_name (image_tar_path ctx)))\<rparr>)
      else Inr ctx)"

text \<open>\<open>f.suffix.lower() == ext\<close>\<close>

definition has_suffix_ci :: "string \<Rightarrow> string \<Rightarrow> bool" where
  "has_suffix_ci ext f = (lower (path_suffix f) = ext)"

text \<open>\<open>_refine_platform_from_extracted_files\<close>: nothing in its body raises, so the
  handler that keeps the platform is never entered.\<close>

definition refine_platform_from_extracted_files :: "run_context \<Rightarrow> string list \<Rightarrow> run_context" where
  "refine_platform_from_extracted_files ctx extracted_files =
     (let qcow2_files = filter (has_suffix_ci ''.qcow2'') extracted_files in
      case qcow2_files of
        [] \<Rightarrow> ctx
      | first_file # others \<Rightarrow>
          (let qcow2_filename = path_name first_file;
               refined_platform = extract_platform_from_qcow2_filename qcow2_filename
           in if truthy refined_platform then ctx\<lparr>platform := refined_platform\<rparr> else ctx))"

text \<open>\<open>_find_iso_file\<close>\<close>

definition find_iso_file :: "string list \<Rightarrow> error + string" where
  "find_iso_file extracted_files =
     (case filter (has_suffix_ci ''.iso'') extracted_files of
        [] \<Rightarrow> Inl (CreateSingleDockerError ''No ISO file found in extracted files'')
      | first_file # others \<Rightarrow> Inr first_file)"

text \<open>\<open>_extract_sdk_version_from_iso\<close>\<close>

definition extract_sdk_version_from_iso :: "string \<Rightarrow> string option" where
  "extract_sdk_version_from_iso iso_file = Some ''24.10.2230.6.dc''"

text \<open>\<open>str(x)\<close> of an optional string.\<close>

definition str_of :: "string option \<Rightarrow> string" where
  "str_of v = (case v of None \<Rightarrow> ''None'' | Some s \<Rightarrow> s)"

text \<open>\<open>_build_bake_and_build_command\<close>\<close>

definition build_bake_and_build_command :: "run_context \<Rightarrow> string list" where
  "build_bake_and_build_command ctx =
     [''bash'', bake_and_build_script ctx, ''-i'', str_of (iso_path ctx),
      ''-p'', str_of (platform ctx), ''-t'', target ctx]
     @ (if truthy (docker_name ctx) then [''-d'', str_of (docker_name ctx)] else [])
     @ (if truthy (sdk_version ctx) then [''--forcesdk'', str_of (sdk_version ctx)] else [])"

text \<open>
  The stages of \<open>run\<close> from the extraction of the two archives to the command line. The
  two extractions are given by their results: the member paths, or the error raised.
\<close>

definition prepare_build ::
  "run_context \<Rightarrow> error + string list \<Rightarrow> error + string list \<Rightarrow> error + run_context \<times> string list" where
  "prepare_build ctx iso_extraction image_extraction =
     (case iso_extraction of
        Inl e \<Rightarrow> Inl e
      | Inr iso_extracted_files \<Rightarrow>
          (case image_extraction of
             Inl e \<Rightarrow> Inl e
           | Inr image_extracted_files \<Rightarrow>
               (let ctx = refine_platform_from_extracted_files ctx image_extracted_files in
                case find_iso_file iso_extracted_files of
                  Inl e \<Rightarrow> Inl e
                | Inr iso_file \<Rightarrow>
                    (let ctx = ctx\<lparr>iso_path := Some iso_file\<rparr>;
                         ctx = ctx\<lparr>sdk_version := extract_sdk_version_from_iso iso_file\<rparr>
                     in Inr (ctx, build_bake_and_build_command ctx)))))"

section \<open>The result reporter\<close>

text \<open>
  What the reporter asks of the file system: which paths are there, on which paths
  \<open>stat\<close> fails with an error other than a missing path (permission denied, a name too
  long), and \<open>Path.resolve\<close>, which may raise and returns an absolute path: the disk
  tells what follows its leading slash.
\<close>

record disk =
  present :: "string \<Rightarrow> bool"
  stat_raises :: "string \<Rightarrow> error option"
  path_resolve :: "string \<Rightarrow> error + string"

text \<open>\<open>Path.exists\<close>: true when \<open>stat\<close> succeeds, false when the path is missing; the
  other errors of \<open>stat\<close> are raised.\<close>

definition path_exists :: "disk \<Rightarrow> string \<Rightarrow> error + bool" where
  "path_exists dk p =
     (case stat_raises dk p of Some e \<Rightarrow> Inl e | None \<Rightarrow> Inr (present dk p))"

text \<open>\<open>r'Saving docker image,.*?to\s+(.+\.tar)'\<close>, searched with \<open>re.IGNORECASE\<close>.\<close>

definition docker_image_pattern :: rx where
  "docker_image_pattern =
     Seq (Str ''Saving docker image,'') (Seq (LazyStar cls_dot) (Seq (Str ''to'')
       (Seq (Plus is_space) (Grp 1 (Seq (Plus cls_dot) (Str ''.tar''))))))"

text \<open>The loop of \<open>_extract_docker_image_path\<close> over the lines of the output; \<open>Inl\<close> is an
  exception that leaves the loop.\<close>

fun docker_path_in_lines :: "disk \<Rightarrow> string list \<Rightarrow> error + string option" where
  "docker_path_in_lines dk [] = Inr None"
| "docker_path_in_lines dk (line # rest) =
     (let line = strip line in
      case re_search True docker_image_pattern line of
        Some m \<Rightarrow>
          (let docker_image_path = strip (group m 1) in
           if docker_image_path \<noteq> [] \<and> endswith docker_image_path ''.tar'' then
             (let path_obj = path_str docker_image_path in
              case path_exists dk path_obj of
                Inl e \<Rightarrow> Inl e
              | Inr True \<Rightarrow>
                  (case path_resolve dk path_obj of
                     Inl e \<Rightarrow> Inl e
                   | Inr resolved \<Rightarrow> Inr (Some (CHR ''/'' # resolved)))
              | Inr False \<Rightarrow> Inr (Some docker_image_path))
           else docker_path_in_lines dk rest)
      | None \<Rightarrow> docker_path_in_lines dk rest)"

text \<open>\<open>_extract_docker_image_path\<close>: an exception is logged and gives \<open>None\<close>.\<close>

definition extract_docker_image_path :: "disk \<Rightarrow> string \<Rightarrow> string option" where
  "extract_docker_image_path dk output =
     (case docker_path_in_lines dk (split_on CHR 0x0A output) of
        Inl e \<Rightarrow> None
      | Inr found \<Rightarrow> found)"

text \<open>The artifact path of \<open>run\<close>: extracted only when the child has exited with 0.\<close>

definition reported_docker_image_path :: "disk \<Rightarrow> int \<Rightarrow> string \<Rightarrow> string option" where
  "reported_docker_image_path dk return_code bake_build_output =
     (if return_code = 0 then extract_docker_image_path dk bake_build_output else None)"

text \<open>
  The end of the inner \<open>try\<close> block of \<open>run\<close>, after the child process has returned its
  exit code and output: the code returned there, together with the artifact path that
  the completion message reports. \<open>Inl\<close> is an exception raised by the test that the
  artifact exists.
\<close>

definition report_result :: "disk \<Rightarrow> int \<Rightarrow> string \<Rightarrow> error + int \<times> string option" where
  "report_result dk return_code bake_build_output =
     (let docker_image_path = reported_docker_image_path dk return_code bake_build_output in
      if truthy docker_image_path then
        (case path_exists dk (path_str (str_of docker_image_path)) of
           Inl e \<Rightarrow> Inl e
         | Inr ex \<Rightarrow> Inr (if \<not> ex then 1 else return_code, docker_image_path))
      else Inr (return_code, docker_image_path))"

text \<open>
  The handlers and the two \<open>finally\<close> blocks around it. An exception of the inner block,
  or of the return to the original directory, reaches the handler of \<open>run\<close>, which
  returns 1; when the removal of the scratch directory raises, \<open>run\<close> itself raises,
  and \<open>main\<close> exits with 1.
\<close>

record finishing =
  chdir_back_raises :: "error option"
  temp_cleanup_raises :: "error option"

definition run_after_build :: "disk \<Rightarrow> finishing \<Rightarrow> int \<Rightarrow> string \<Rightarrow> error + int" where
  "run_after_build dk fin return_code bake_build_output =
     (let returned =
            (case report_result dk return_code bake_build_output of
               Inl e \<Rightarrow> 1
             | Inr (code, docker_image_path) \<Rightarrow>
                 (case chdir_back_raises fin of Some e \<Rightarrow> 1 | None \<Rightarrow> code))
      in case temp_cleanup_raises fin of Some e \<Rightarrow> Inl e | None \<Rightarrow> Inr returned)"

text \<open>The argument \<open>main\<close> gives to \<open>sys.exit\<close>.\<close>

definition exit_code :: "error + int \<Rightarrow> int" where
  "exit_code r = (case r of Inl e \<Rightarrow> 1 | Inr code \<Rightarrow> code)"

section \<open>Drop-folder cleanup\<close>

text \<open>
  The file system is a value of any type \<open>'fs\<close>, and the operations the cleanup uses are
  given with it: the two tests may raise, and the recursive removal returns the file
  system it leaves behind together with the exception it raised, if any.
\<close>

record 'fs fs_ops =
  dir_exists :: "'fs \<Rightarrow> string \<Rightarrow> error + bool"
  dir_is_dir :: "'fs \<Rightarrow> string \<Rightarrow> error + bool"
  rmtree :: "'fs \<Rightarrow> string \<Rightarrow> error option \<times> 'fs"

datatype level = DEBUG | INFO | WARNING | ERROR

text \<open>The calls of the logger are kept, in order, with their level and their message.\<close>

record 'fs world =
  fsys :: 'fs
  logged :: "(level \<times> string) list"

definition log_msg :: "level \<Rightarrow> string \<Rightarrow> 'fs world \<Rightarrow> 'fs world" where
  "log_msg lv msg w = w\<lparr>logged := logged w @ [(lv, msg)]\<rparr>"

text \<open>\<open>line.split(':', 1)[1]\<close> of a line that has a colon.\<close>

definition after_colon :: "string \<Rightarrow> string" where
  "after_colon line = drop 1 (dropWhile (\<lambda>c. c \<noteq> CHR '':'') line)"

text \<open>
  The two cleanup functions of the script differ in the name of the marker only, so
  one function takes the marker. This is the loop over the lines inside \<open>try\<close>; \<open>Inl\<close> is
  an exception that reaches the outer handler.
\<close>

fun cleanup_lines ::
  "'fs fs_ops \<Rightarrow> string \<Rightarrow> 'fs world \<Rightarrow> string list \<Rightarrow> (error + bool) \<times> 'fs world" where
  "cleanup_lines ops marker w [] =
     (Inr False, log_msg INFO (''No '' @ marker @ '' found in bake-and-build.sh output'') w)"
| "cleanup_lines ops marker w (line # rest) =
     (let line = strip line in
      if startswith line (marker @ '':'') then
        (let folder_path = path_str (strip (after_colon line)) in
         case dir_exists ops (fsys w) folder_path of
           Inl e \<Rightarrow> (Inl e, w)
         | Inr ex \<Rightarrow>
             (case (if ex then dir_is_dir ops (fsys w) folder_path else Inr False) of
                Inl e \<Rightarrow> (Inl e, w)
              | Inr is_dir \<Rightarrow>
                  if ex \<and> is_dir then
                    (let w = log_msg DEBUG (''Cleaning up '' @ marker @ '': '' @ folder_path) w in
                     case rmtree ops (fsys w) folder_path of
                       (None, fs') \<Rightarrow>
                         (Inr True,
                          log_msg INFO (''Successfully removed '' @ marker @ '': '' @ folder_path)
                            (w\<lparr>fsys := fs'\<rparr>))
                     | (Some e, fs') \<Rightarrow>
                         (Inr False,
                          log_msg WARNING
                            (''Failed to remove '' @ marker @ '' '' @ folder_path @ '': ''
                               @ error_text e)
                            (w\<lparr>fsys := fs'\<rparr>)))
                  else
                    (Inr False,
                     log_msg WARNING
                       (marker @ '' does not exist or is not a directory: '' @ folder_path) w)))
      else cleanup_lines ops marker w rest)"

text \<open>
  The whole function, with its handler. Its result is written as that of any call, a
  value or (\<open>Inl\<close>) an exception that leaves the function.
\<close>

definition cleanup_drop_folder ::
  "'fs fs_ops \<Rightarrow> string \<Rightarrow> 'fs world \<Rightarrow> string \<Rightarrow> (error + bool) \<times> 'fs world" where
  "cleanup_drop_folder ops marker w output =
     (case cleanup_lines ops marker w (split_on CHR 0x0A output) of
        (Inl e, w') \<Rightarrow>
          (Inr False,
           log_msg WARNING (''Error while cleaning up '' @ marker @ '': '' @ error_text e) w')
      | (Inr done, w') \<Rightarrow> (Inr done, w'))"

definition cleanup_img_drop_folder ::
  "'fs fs_ops \<Rightarrow> 'fs world \<Rightarrow> string \<Rightarrow> (error + bool) \<times> 'fs world" where
  "cleanup_img_drop_folder ops w output = cleanup_drop_folder ops ''IMG_DROP_FOLDER'' w output"

definition cleanup_yaml_drop_folder ::
  "'fs fs_ops \<Rightarrow> 'fs world \<Rightarrow> string \<Rightarrow> (error + bool) \<times> 'fs world" where
  "cleanup_yaml_drop_folder ops w output = cleanup_drop_folder ops ''YAML_DROP_FOLDER'' w output"

text \<open>\<open>'\n'.join(lines)\<close>\<close>

definition join_lines :: "string list \<Rightarrow> string" where
  "join_lines ls = join_with CHR 0x0A ls"

text \<open>
  The end of the \<open>try\<close> block of \<open>_run_bake_and_build\<close>, once the child has exited with
  \<open>return_code\<close> and its lines are in \<open>all_output\<close>: both cleanups run, and the exit code
  and the joined output are returned. An exception of a cleanup would reach the handler
  of \<open>_run_bake_and_build\<close>, which logs it and returns 1 with an error text. The message
  logged after each cleanup begins with a pictograph, which has no 8-bit code: the two
  pictographs of the script are parameters.
\<close>

record pictographs =
  broom :: string
  info_sign :: string

definition execution_error :: "error \<Rightarrow> 'fs world \<Rightarrow> (int \<times> string) \<times> 'fs world" where
  "execution_error e w =
     ((1, ''Error occurred during execution: '' @ error_text e),
      log_msg ERROR (''Error executing bake-and-build.sh: '' @ error_text e) w)"

definition after_child ::
  "'fs fs_ops \<Rightarrow> pictographs \<Rightarrow> 'fs world \<Rightarrow> int \<Rightarrow> string list \<Rightarrow> (int \<times> string) \<times> 'fs world" where
  "after_child ops signs w return_code all_output =
     (let full_output = join_lines all_output in
      case cleanup_img_drop_folder ops w full_output of
        (Inl e, w) \<Rightarrow> execution_error e w
      | (Inr img_done, w) \<Rightarrow>
          (let w = log_msg INFO
                     (if img_done then broom signs @ '' Cleaned up IMG_DROP_FOLDER''
                      else info_sign signs @ ''  No IMG_DROP_FOLDER found to clean up'') w
           in case cleanup_yaml_drop_folder ops w full_output of
                (Inl e, w) \<Rightarrow> execution_error e w
              | (Inr yaml_done, w) \<Rightarrow>
                  (let w = log_msg INFO
                             (if yaml_done then broom signs @ '' Cleaned up YAML_DROP_FOLDER''
                              else info_sign signs @ ''  No YAML_DROP_FOLDER found to clean up'') w
                   in ((return_code, full_output), w))))"

section \<open>The input resolver: the installer archive of an image archive\<close>

text \<open>The classes \<open>[\w-]\<close>, \<open>[\d\.]\<close> and \<open>[fd]\<close>.\<close>

definition cls_w_dash :: "char \<Rightarrow> bool" where
  "cls_w_dash c = (cls_w c \<or> c = CHR ''-'')"

definition cls_d_dot :: "char \<Rightarrow> bool" where
  "cls_d_dot c = (cls_d c \<or> c = CHR ''.'')"

definition cls_fd :: "char \<Rightarrow> bool" where
  "cls_fd c = (c = CHR ''f'' \<or> c = CHR ''d'')"

text \<open>The three patterns share their parts: \<open>(8000-\d+)\<close>, \<open>\d+(?:-[\w-]+)?\<close> and
  \<open>(eft[\d\.]+)\.tar$\<close>. They are given to \<open>re.match\<close>, which anchors at the start.\<close>

definition release_group :: rx where
  "release_group = Grp 1 (Seq (Str ''8000-'') (Plus cls_d))"

definition platform_part :: rx where
  "platform_part = Seq (Plus cls_d) (Opt (Seq (Str ''-'') (Plus cls_w_dash)))"

definition eft_tail :: rx where
  "eft_tail = Seq (Grp 2 (Seq (Str ''eft'') (Plus cls_d_dot))) (Seq (Str ''.tar'') Eol)"

text \<open>The first two patterns differ in two literals only.\<close>

definition shape_pattern :: "string \<Rightarrow> string \<Rightarrow> rx" where
  "shape_pattern mk lit =
     Seq release_group (Seq (Str mk) (Seq platform_part (Seq (Str lit) eft_tail)))"

text \<open>\<open>r'^(8000-\d+)-f-\d+(?:-[\w-]+)?-image-(eft[\d\.]+)\.tar$'\<close>\<close>

definition fixed_pattern :: rx where
  "fixed_pattern = shape_pattern ''-f-'' ''-image-''"

text \<open>\<open>r'^(8000-\d+)-d-\d+(?:-[\w-]+)?-images-(eft[\d\.]+)\.tar$'\<close>\<close>

definition distributed_pattern :: rx where
  "distributed_pattern = shape_pattern ''-d-'' ''-images-''"

text \<open>\<open>r'^(8000-\d+)-[fd]-\d+(?:-[\w-]+)?-images?-(eft[\d\.]+)\.tar$'\<close>\<close>

definition generic_pattern :: rx where
  "generic_pattern =
     Seq release_group (Seq (Str ''-'') (Seq (Cls cls_fd) (Seq (Str ''-'')
       (Seq platform_part (Seq (Str ''-image'') (Seq (Opt (Str ''s'')) (Seq (Str ''-'')
         eft_tail)))))))"

definition patterns :: "rx list" where
  "patterns = [fixed_pattern, distributed_pattern, generic_pattern]"

text \<open>The loop over the patterns: the two groups of the first pattern that matches.\<close>

fun first_pattern_groups :: "rx list \<Rightarrow> string \<Rightarrow> (string \<times> string) option" where
  "first_pattern_groups [] filename = None"
| "first_pattern_groups (pattern # rest) filename =
     (case re_match False pattern filename of
        Some m \<Rightarrow> Some (group m 1, group m 2)
      | None \<Rightarrow> first_pattern_groups rest filename)"

text \<open>The name of the installer archive that the resolver looks for.\<close>

definition expected_iso_name :: "string \<Rightarrow> string option" where
  "expected_iso_name filename =
     (case first_pattern_groups patterns filename of
        None \<Rightarrow> None
      | Some (base_pattern, eft_version) \<Rightarrow>
          if base_pattern = [] \<or> eft_version = [] then None
          else Some (base_pattern @ ''-iso-'' @ eft_version @ ''.tar''))"

text \<open>\<open>parent_dir.glob("*-iso-*.tar")\<close> on the names of a directory listing.\<close>

definition iso_glob :: "string \<Rightarrow> bool" where
  "iso_glob name =
     (endswith name ''.tar'' \<and> str_contains (take (length name - 4) name) ''-iso-'')"

text \<open>
  \<open>find_iso_tar_from_image_tar\<close>, on the name of the image archive and the names in its
  directory: the reconstructed name when such a file is there, otherwise the first
  \<open>*-iso-*.tar\<close> file whose name begins with the release identifier.
\<close>

definition find_iso_tar_from_image_tar :: "string list \<Rightarrow> string \<Rightarrow> string option" where
  "find_iso_tar_from_image_tar listing filename =
     (case first_pattern_groups patterns filename of
        None \<Rightarrow> None
      | Some (base_pattern, eft_version) \<Rightarrow>
          if base_pattern = [] \<or> eft_version = [] then None
          else (let expected = base_pattern @ ''-iso-'' @ eft_version @ ''.tar'' in
                if expected \<in> set listing then Some expected
                else find (\<lambda>name. startswith name base_pattern) (filter iso_glob listing)))"

section \<open>A run context for the examples\<close>

definition example_context :: "string \<Rightarrow> string option \<Rightarrow> run_context" where
  "example_context image_tar platform_arg =
     init_context ''/rel/8000-2512-iso-eft15.1.tar'' image_tar platform_arg None ''all'' True
       ''/rel/bake-and-build/bake-and-build.sh''"

text \<open>A disk on which no path exists, and a run whose final steps do not raise.\<close>

definition empty_disk :: disk where
  "empty_disk =
     \<lparr> present = (\<lambda>p. False), stat_raises = (\<lambda>p. None),
       path_resolve = (\<lambda>p. Inr (drop 1 p)) \<rparr>"

definition quiet_finish :: finishing where
  "quiet_finish = \<lparr> chdir_back_raises = None, temp_cleanup_raises = None \<rparr>"

text \<open>A file system that is the list of its directories, with a removal that succeeds
  and one that fails.\<close>

definition list_fs_ops :: "string list fs_ops" where
  "list_fs_ops =
     \<lparr> dir_exists = (\<lambda>fs p. Inr (p \<in> set fs)),
       dir_is_dir = (\<lambda>fs p. Inr (p \<in> set fs)),
       rmtree = (\<lambda>fs p. (None, filter (\<lambda>q. q \<noteq> p \<and> \<not> startswith q (p @ ''/'')) fs)) \<rparr>"

definition stuck_fs_ops :: "string list fs_ops" where
  "stuck_fs_ops =
     list_fs_ops\<lparr>rmtree := (\<lambda>fs p. (Some (OSError ''[Errno 13] Permission denied''), fs))\<rparr>"

definition start_world :: "string list \<Rightarrow> string list world" where
  "start_world fs = \<lparr> fsys = fs, logged = [] \<rparr>"

text \<open>A run whose removal of the scratch directory raises.\<close>

definition failing_cleanup :: finishing where
  "failing_cleanup =
     \<lparr> chdir_back_raises = None,
       temp_cleanup_raises = Some (OSError ''[Errno 13] Permission denied'') \<rparr>"

text \<open>Stand-ins for the two pictographs.\<close>

definition plain_signs :: pictographs where
  "plain_signs = \<lparr> broom = ''*'', info_sign = ''i'' \<rparr>"

text \<open>A disk without files on which the directory \<open>/root\<close> may not be searched.\<close>

definition protected_disk :: disk where
  "protected_disk =
     empty_disk\<lparr>stat_raises :=
       (\<lambda>p. if startswith p ''/root/'' then Some (OSError ''[Errno 13] Permission denied'')
            else None)\<rparr>"

section \<open>Properties of stage 1\<close>

lemma split_on_nonempty: "split_on c s \<noteq> []"
  by (induction s) (auto split: list.splits)

lemma hd_split_on: "hd (split_on c s) = takeWhile (\<lambda>x. x \<noteq> c) s"
  by (induction s) (auto simp: split_on_nonempty split: list.splits)

lemma takeWhile_no_sep: "c \<notin> set s \<Longrightarrow> takeWhile (\<lambda>x. x \<noteq> c) s = s"
  by (induction s) auto

lemma split_on_no_sep: "seg \<in> set (split_on c s) \<Longrightarrow> c \<notin> set seg"
  by (induction s arbitrary: seg) (auto split: list.splits if_splits)

lemma part_after_member: "part_after marker parts = Some c \<Longrightarrow> c \<in> set parts"
  by (auto simp: part_after_def Let_def split: if_splits)

lemma part_after_no_dash:
  assumes "part_after marker (split_on CHR ''-'' fn) = Some c"
  shows "CHR ''-'' \<notin> set c"
  using part_after_member [OF assms] by (rule split_on_no_sep)

lemma lookup_d_bind: "lookup_d parts = Option.bind (part_after ''d'' parts) platform_mapping"
  by (simp add: lookup_d_def split: option.splits)

lemma lookup_f_bind:
  "lookup_f (split_on CHR ''-'' fn)
     = Option.bind (part_after ''f'' (split_on CHR ''-'' fn)) platform_mapping"
  by (auto simp: lookup_f_def Let_def split: option.splits dest: part_after_no_dash)

lemma scan_parts_find:
  "scan_parts parts =
     map_option (\<lambda>t. case platform_mapping t of Some v \<Rightarrow> v | None \<Rightarrow> t)
       (find is_platform_token parts)"
  by (induction parts) auto

text \<open>
  Claim C2, as amended. The segment after the first \<open>d\<close> is looked up in the platform
  table and a hit is returned as mapped; failing that, the segment after the first \<open>f\<close>
  is looked up and a hit is returned as mapped. A segment has no \<open>-\<close>, so its prefix
  before its first \<open>-\<close> is the segment itself and gives no further lookup. When no marker
  lookup hits, a filename containing \<open>ncs1010\<close> gives \<open>ncs1010\<close>; otherwise the first
  segment of four digit characters beginning with 8 is looked up and its mapped value
  returned, the raw token only when the table does not have it; when there is no such
  segment either, the default platform is returned. The archive
  \<open>8000-2512-f-8101-image-eft15.1.tar\<close> gives \<open>8101-32H\<close>.
\<close>

theorem stage1_inference:
  "(part_after ''d'' (split_on CHR ''-'' fn) = Some c \<and> platform_mapping c = Some v
      \<longrightarrow> extract_platform_from_filename fn = v) \<and>
   (Option.bind (part_after ''d'' (split_on CHR ''-'' fn)) platform_mapping = None \<and>
    part_after ''f'' (split_on CHR ''-'' fn) = Some c \<and> platform_mapping c = Some v
      \<longrightarrow> extract_platform_from_filename fn = v) \<and>
   (part_after ''d'' (split_on CHR ''-'' fn) = Some c \<or>
    part_after ''f'' (split_on CHR ''-'' fn) = Some c
      \<longrightarrow> takeWhile (\<lambda>x. x \<noteq> CHR ''-'') c = c) \<and>
   (Option.bind (part_after ''d'' (split_on CHR ''-'' fn)) platform_mapping = None \<and>
    Option.bind (part_after ''f'' (split_on CHR ''-'' fn)) platform_mapping = None \<and>
    str_contains fn ''ncs1010''
      \<longrightarrow> extract_platform_from_filename fn = ''ncs1010'') \<and>
   (Option.bind (part_after ''d'' (split_on CHR ''-'' fn)) platform_mapping = None \<and>
    Option.bind (part_after ''f'' (split_on CHR ''-'' fn)) platform_mapping = None \<and>
    \<not> str_contains fn ''ncs1010'' \<and>
    find is_platform_token (split_on CHR ''-'' fn) = Some t
      \<longrightarrow> extract_platform_from_filename fn =
            (case platform_mapping t of Some v' \<Rightarrow> v' | None \<Rightarrow> t)) \<and>
   (Option.bind (part_after ''d'' (split_on CHR ''-'' fn)) platform_mapping = None \<and>
    Option.bind (part_after ''f'' (split_on CHR ''-'' fn)) platform_mapping = None \<and>
    \<not> str_contains fn ''ncs1010'' \<and>
    find is_platform_token (split_on CHR ''-'' fn) = None
      \<longrightarrow> extract_platform_from_filename fn = DEFAULT_PLATFORM) \<and>
   extract_platform_from_filename ''8000-2512-f-8101-image-eft15.1.tar'' = ''8101-32H''"
proof -
  let ?parts = "split_on CHR ''-'' fn"
  let ?d = "Option.bind (part_after ''d'' ?parts) platform_mapping"
  let ?f = "Option.bind (part_after ''f'' ?parts) platform_mapping"
  note defs = extract_platform_from_filename_def extract_platform_body_def
    lookup_d_bind lookup_f_bind
  have d: "part_after ''d'' ?parts = Some c \<and> platform_mapping c = Some v
      \<longrightarrow> extract_platform_from_filename fn = v"
    by (simp add: defs)
  have f: "?d = None \<and> part_after ''f'' ?parts = Some c \<and> platform_mapping c = Some v
      \<longrightarrow> extract_platform_from_filename fn = v"
    by (simp add: defs)
  have p: "part_after ''d'' ?parts = Some c \<or> part_after ''f'' ?parts = Some c
      \<longrightarrow> takeWhile (\<lambda>x. x \<noteq> CHR ''-'') c = c"
    by (auto dest: part_after_no_dash intro: takeWhile_no_sep)
  have n: "?d = None \<and> ?f = None \<and> str_contains fn ''ncs1010''
      \<longrightarrow> extract_platform_from_filename fn = ''ncs1010''"
    by (simp add: defs)
  have s: "?d = None \<and> ?f = None \<and>
    \<not> str_contains fn ''ncs1010'' \<and> find is_platform_token ?parts = Some t
      \<longrightarrow> extract_platform_from_filename fn =
            (case platform_mapping t of Some v' \<Rightarrow> v' | None \<Rightarrow> t)"
    by (simp add: defs scan_parts_find)
  have z: "?d = None \<and> ?f = None \<and>
    \<not> str_contains fn ''ncs1010'' \<and> find is_platform_token ?parts = None
      \<longrightarrow> extract_platform_from_filename fn = DEFAULT_PLATFORM"
    by (simp add: defs scan_parts_find)
  have e: "extract_platform_from_filename ''8000-2512-f-8101-image-eft15.1.tar'' = ''8101-32H''"
    by code_simp
  from d f p n s z e show ?thesis by blast
qed

theorem stage1_inference_witness:
  "extract_platform_from_filename ''8000-2512-d-8808-images-eft15.1.tar'' = ''8800-lc-36fh-m'' \<and>
   extract_platform_from_filename ''8000-2512-f-8202-image-eft15.1.tar'' = ''8202'' \<and>
   takeWhile (\<lambda>x. x \<noteq> CHR ''-'') ''8202'' = ''8202'' \<and>
   extract_platform_from_filename ''ncs1010-image.tar'' = ''ncs1010'' \<and>
   extract_platform_from_filename ''img-8999-x.tar'' = ''8999'' \<and>
   extract_platform_from_filename ([CHR ''8'', CHR 0xB2, CHR 0xB3, CHR 0xB9] @ ''-image.tar'')
     = [CHR ''8'', CHR 0xB2, CHR 0xB3, CHR 0xB9] \<and>
   extract_platform_from_filename ''foo.tar'' = DEFAULT_PLATFORM"
proof -
  let ?sup = "[CHR ''8'', CHR 0xB2, CHR 0xB3, CHR 0xB9]"
  have h1: "part_after ''d'' (split_on CHR ''-'' ''8000-2512-d-8808-images-eft15.1.tar'') = Some ''8808''
      \<and> platform_mapping ''8808'' = Some ''8800-lc-36fh-m''"
    by code_simp
  have h2: "Option.bind (part_after ''d'' (split_on CHR ''-'' ''8000-2512-f-8202-image-eft15.1.tar''))
      platform_mapping = None \<and>
    part_after ''f'' (split_on CHR ''-'' ''8000-2512-f-8202-image-eft15.1.tar'') = Some ''8202'' \<and>
    platform_mapping ''8202'' = Some ''8202''"
    by code_simp
  have h3: "Option.bind (part_after ''d'' (split_on CHR ''-'' ''ncs1010-image.tar'')) platform_mapping = None \<and>
    Option.bind (part_after ''f'' (split_on CHR ''-'' ''ncs1010-image.tar'')) platform_mapping = None \<and>
    str_contains ''ncs1010-image.tar'' ''ncs1010''"
    by code_simp
  have h4: "Option.bind (part_after ''d'' (split_on CHR ''-'' ''img-8999-x.tar'')) platform_mapping = None \<and>
    Option.bind (part_after ''f'' (split_on CHR ''-'' ''img-8999-x.tar'')) platform_mapping = None \<and>
    \<not> str_contains ''img-8999-x.tar'' ''ncs1010'' \<and>
    find is_platform_token (split_on CHR ''-'' ''img-8999-x.tar'') = Some ''8999'' \<and>
    platform_mapping ''8999'' = None"
    by code_simp
  have h5: "Option.bind (part_after ''d'' (split_on CHR ''-'' ''foo.tar'')) platform_mapping = None \<and>
    Option.bind (part_after ''f'' (split_on CHR ''-'' ''foo.tar'')) platform_mapping = None \<and>
    \<not> str_contains ''foo.tar'' ''ncs1010'' \<and>
    find is_platform_token (split_on CHR ''-'' ''foo.tar'') = None"
    by code_simp
  have h6: "Option.bind (part_after ''d'' (split_on CHR ''-'' (?sup @ ''-image.tar''))) platform_mapping = None \<and>
    Option.bind (part_after ''f'' (split_on CHR ''-'' (?sup @ ''-image.tar''))) platform_mapping = None \<and>
    \<not> str_contains (?sup @ ''-image.tar'') ''ncs1010'' \<and>
    find is_platform_token (split_on CHR ''-'' (?sup @ ''-image.tar'')) = Some ?sup \<and>
    platform_mapping ?sup = None"
    by code_simp
  have r1: "extract_platform_from_filename ''8000-2512-d-8808-images-eft15.1.tar'' = ''8800-lc-36fh-m''"
    using h1 stage1_inference
      [where fn = "''8000-2512-d-8808-images-eft15.1.tar''" and c = "''8808''"
         and v = "''8800-lc-36fh-m''"]
    by blast
  have r2: "extract_platform_from_filename ''8000-2512-f-8202-image-eft15.1.tar'' = ''8202''"
    and r2': "takeWhile (\<lambda>x. x \<noteq> CHR ''-'') ''8202'' = ''8202''"
    using h2 stage1_inference
      [where fn = "''8000-2512-f-8202-image-eft15.1.tar''" and c = "''8202''" and v = "''8202''"]
    by blast+
  have r3: "extract_platform_from_filename ''ncs1010-image.tar'' = ''ncs1010''"
    using h3 stage1_inference [where fn = "''ncs1010-image.tar''"] by blast
  have r4: "extract_platform_from_filename ''img-8999-x.tar'' = ''8999''"
    using h4 stage1_inference [where fn = "''img-8999-x.tar''" and t = "''8999''"] by simp
  have r5: "extract_platform_from_filename ''foo.tar'' = DEFAULT_PLATFORM"
    using h5 stage1_inference [where fn = "''foo.tar''"] by blast
  have r6: "extract_platform_from_filename (?sup @ ''-image.tar'') = ?sup"
    using h6 stage1_inference [where fn = "?sup @ ''-image.tar''" and t = "?sup"] by simp
  from r1 r2 r2' r3 r4 r5 r6 show ?thesis by blast
qed

text \<open>
  Claim C2 as stated fails: after the marker \<open>f\<close> comes a code that the table does not
  have, the scan over the segments finds the raw token \<open>8999\<close> (resp. \<open>8101\<close>), and the
  result is \<open>ncs1010\<close> (resp. the mapped value \<open>8101-32H\<close>), not that raw token.
\<close>

theorem stage1_counterexample:
  "part_after ''f'' (split_on CHR ''-'' ''8999-2512-f-ncs1010v2-image.tar'') = Some ''ncs1010v2'' \<and>
   platform_mapping ''ncs1010v2'' = None \<and>
   find is_platform_token (split_on CHR ''-'' ''8999-2512-f-ncs1010v2-image.tar'') = Some ''8999'' \<and>
   platform_mapping ''8999'' = None \<and>
   extract_platform_from_filename ''8999-2512-f-ncs1010v2-image.tar'' = ''ncs1010'' \<and>
   part_after ''f'' (split_on CHR ''-'' ''8101-2512-f-9999-image.tar'') = Some ''9999'' \<and>
   platform_mapping ''9999'' = None \<and>
   find is_platform_token (split_on CHR ''-'' ''8101-2512-f-9999-image.tar'') = Some ''8101'' \<and>
   extract_platform_from_filename ''8101-2512-f-9999-image.tar'' = ''8101-32H''"
  by code_simp

section \<open>Properties of stage 2 and of the refinement\<close>


lemma find_filter_hd:
  "find P xs = Some f \<longleftrightarrow> (\<exists>others. filter P xs = f # others)"
  by (induction xs) auto

lemma find_filter_nil: "find P xs = None \<longleftrightarrow> filter P xs = []"
  by (induction xs) auto

lemma first_pattern_match_value:
  "first_pattern_match test tbl = Some v \<Longrightarrow> v \<in> snd ` set tbl"
  by (induction test tbl rule: first_pattern_match.induct) (auto split: if_splits)

lemma qcow2_values_nonempty: "v \<in> snd ` set QCOW2_TO_PLATFORM \<Longrightarrow> v \<noteq> []"
  by (auto simp: QCOW2_TO_PLATFORM_def)

lemma platform_values_nonempty: "platform_mapping k = Some v \<Longrightarrow> v \<noteq> []"
proof -
  assume "platform_mapping k = Some v"
  then have "(k, v) \<in> set PLATFORM_MAPPING"
    unfolding platform_mapping_def by (rule map_of_SomeD)
  then show ?thesis by (auto simp: PLATFORM_MAPPING_def)
qed

lemma base_platform_group:
  "re_match ic base_platform_pattern s = Some m \<Longrightarrow> length (group m 1) = 4"
  using length_takeWhile_le [of cls_d s]
  by (auto simp: re_match_def base_platform_pattern_def group_def split: if_splits)

lemma qcow2_platform_nonempty:
  assumes "extract_platform_from_qcow2_filename n = Some q"
  shows "q \<noteq> []"
  using assms
  unfolding extract_platform_from_qcow2_filename_def Let_def
  by (auto split: option.splits
      dest!: first_pattern_match_value qcow2_values_nonempty platform_values_nonempty
             base_platform_group)


lemma refine_platform_cases:
  "platform (refine_platform_from_extracted_files ctx files) =
     (case find (has_suffix_ci ''.qcow2'') files of
        None \<Rightarrow> platform ctx
      | Some f \<Rightarrow>
          (case extract_platform_from_qcow2_filename (path_name f) of
             None \<Rightarrow> platform ctx
           | Some q \<Rightarrow> Some q))"
proof (cases "find (has_suffix_ci ''.qcow2'') files")
  case None
  then have "filter (has_suffix_ci ''.qcow2'') files = []"
    by (simp add: find_filter_nil)
  with None show ?thesis
    by (simp add: refine_platform_from_extracted_files_def)
next
  case (Some f)
  then obtain others where "filter (has_suffix_ci ''.qcow2'') files = f # others"
    by (auto simp: find_filter_hd)
  with Some show ?thesis
    by (auto simp: refine_platform_from_extracted_files_def truthy_def
        split: option.splits dest: qcow2_platform_nonempty)
qed

text \<open>
  Claim C1, as amended. When at least one extracted file has the extension \<open>.qcow2\<close>
  (compared without regard to case) and the name of the first such file resolves to a
  platform, refinement replaces the platform of the run by exactly that value, whatever
  the value before was: nothing of the previous value is kept. When that name resolves
  to nothing, the run context is left as it was.
\<close>

theorem refinement_replaces:
  assumes "find (has_suffix_ci ''.qcow2'') files = Some f"
  shows "(extract_platform_from_qcow2_filename (path_name f) = Some q \<longrightarrow>
            refine_platform_from_extracted_files ctx files = ctx\<lparr>platform := Some q\<rparr>) \<and>
         (extract_platform_from_qcow2_filename (path_name f) = None \<longrightarrow>
            refine_platform_from_extracted_files ctx files = ctx)"
proof -
  from assms obtain others where "filter (has_suffix_ci ''.qcow2'') files = f # others"
    by (auto simp: find_filter_hd)
  then show ?thesis
    by (auto simp: refine_platform_from_extracted_files_def truthy_def
        dest: qcow2_platform_nonempty)
qed

theorem refinement_replaces_witness:
  "find (has_suffix_ci ''.qcow2'') [''/tmp/w/readme.txt'', ''/tmp/w/8101-32FH-x64-25.1.2.qcow2'']
     = Some ''/tmp/w/8101-32FH-x64-25.1.2.qcow2'' \<and>
   platform (refine_platform_from_extracted_files
      (example_context ''/rel/8000-2512-f-8101-image-eft15.1.tar'' (Some ''8101-32H''))
      [''/tmp/w/readme.txt'', ''/tmp/w/8101-32FH-x64-25.1.2.qcow2'']) = Some ''8101-32FH''"
proof -
  have h: "find (has_suffix_ci ''.qcow2'') [''/tmp/w/readme.txt'', ''/tmp/w/8101-32FH-x64-25.1.2.qcow2'']
     = Some ''/tmp/w/8101-32FH-x64-25.1.2.qcow2''"
    by code_simp
  have q: "extract_platform_from_qcow2_filename (path_name ''/tmp/w/8101-32FH-x64-25.1.2.qcow2'')
     = Some ''8101-32FH''"
    by code_simp
  from refinement_replaces [OF h, where q = "''8101-32FH''"] q h show ?thesis
    by simp
qed

text \<open>
  Claim C1 as stated fails: a file with the extension \<open>.qcow2\<close> is present, its name
  resolves to no platform, and the platform set before stays.
\<close>

theorem refinement_counterexample:
  "has_suffix_ci ''.qcow2'' ''/tmp/w/disk.qcow2'' \<and>
   platform (example_context ''/rel/8000-2512-f-8101-image-eft15.1.tar'' (Some ''8101-32H''))
     = Some ''8101-32H'' \<and>
   platform (refine_platform_from_extracted_files
      (example_context ''/rel/8000-2512-f-8101-image-eft15.1.tar'' (Some ''8101-32H''))
      [''/tmp/w/disk.qcow2'']) = Some ''8101-32H'' \<and>
   extract_platform_from_qcow2_filename ''disk.qcow2'' = None"
  by code_simp

section \<open>The platform through the pipeline\<close>


lemma prepare_build_platform:
  assumes "prepare_build ctx iso_x (Inr image_files) = Inr (ctx', cmd)"
  shows "platform ctx' = platform (refine_platform_from_extracted_files ctx image_files)"
    and "cmd = build_bake_and_build_command ctx'"
  using assms
  by (auto simp: prepare_build_def Let_def split: sum.splits)

text \<open>
  Claim C3, as amended. From the extraction of the archives to the command line, the
  platform of the run context is changed by the refinement stage only, and there it
  becomes the platform derived from the name of the first \<open>.qcow2\<close> file whenever that
  name resolves, whether or not this value is more specific than the one before; in
  every other case it is the value the context had.
\<close>

theorem platform_replaced_only_by_refinement:
  assumes "prepare_build ctx iso_extraction (Inr image_files) = Inr (ctx', cmd)"
  shows "platform ctx' =
     (case find (has_suffix_ci ''.qcow2'') image_files of
        None \<Rightarrow> platform ctx
      | Some f \<Rightarrow>
          (case extract_platform_from_qcow2_filename (path_name f) of
             None \<Rightarrow> platform ctx
           | Some q \<Rightarrow> Some q))"
  using prepare_build_platform(1) [OF assms] refine_platform_cases [of ctx image_files]
  by simp

theorem platform_replaced_only_by_refinement_witness:
  "\<exists>ctx' cmd.
     prepare_build (example_context ''/rel/8000-2512-f-8101-image-eft15.1.tar'' (Some ''8101-32FH''))
       (Inr [''/tmp/w/8000-2512.iso'']) (Inr [''/tmp/w/8101-x64-25.1.2.qcow2'']) = Inr (ctx', cmd) \<and>
     platform ctx' = Some ''8101-32H''"
proof -
  obtain ctx' cmd where h:
    "prepare_build (example_context ''/rel/8000-2512-f-8101-image-eft15.1.tar'' (Some ''8101-32FH''))
       (Inr [''/tmp/w/8000-2512.iso'']) (Inr [''/tmp/w/8101-x64-25.1.2.qcow2'']) = Inr (ctx', cmd)"
    by (simp add: prepare_build_def Let_def find_iso_file_def has_suffix_ci_def path_suffix_def
        path_name_def lower_def lower_char_def upper_letters_def lower_letters_def)
  have f: "find (has_suffix_ci ''.qcow2'') [''/tmp/w/8101-x64-25.1.2.qcow2'']
      = Some ''/tmp/w/8101-x64-25.1.2.qcow2''"
    by code_simp
  have q: "extract_platform_from_qcow2_filename (path_name ''/tmp/w/8101-x64-25.1.2.qcow2'')
      = Some ''8101-32H''"
    by code_simp
  from platform_replaced_only_by_refinement [OF h] f q have "platform ctx' = Some ''8101-32H''"
    by simp
  with h show ?thesis by blast
qed

text \<open>
  Claim C3 as stated fails. In one run the platform inferred from the archive name,
  \<open>8201-32FH\<close>, is replaced by \<open>8101-32H\<close>; in another run \<open>8101-32H\<close> is replaced by
  \<open>8201-32FH\<close>. No strict order of specificity has both replacements go upwards.
\<close>

theorem specificity_counterexample:
  "validate_inputs (\<lambda>p. True) (example_context ''/rel/8000-2512-f-8201-image-eft15.1.tar'' None)
     = Inr (example_context ''/rel/8000-2512-f-8201-image-eft15.1.tar'' (Some ''8201-32FH'')) \<and>
   platform (refine_platform_from_extracted_files
      (example_context ''/rel/8000-2512-f-8201-image-eft15.1.tar'' (Some ''8201-32FH''))
      [''/tmp/w/8101-x64-25.1.2.qcow2'']) = Some ''8101-32H'' \<and>
   validate_inputs (\<lambda>p. True) (example_context ''/rel/8000-2512-f-8101-image-eft15.1.tar'' None)
     = Inr (example_context ''/rel/8000-2512-f-8101-image-eft15.1.tar'' (Some ''8101-32H'')) \<and>
   platform (refine_platform_from_extracted_files
      (example_context ''/rel/8000-2512-f-8101-image-eft15.1.tar'' (Some ''8101-32H''))
      [''/tmp/w/8201-x64-25.1.2.qcow2'']) = Some ''8201-32FH''"
  by code_simp

text \<open>
  Claim C6, as amended. With a non-empty \<open>--platform\<close> value, validation keeps that
  value (the inference from the archive name is not consulted); the refinement still
  runs, and when the name of the first extracted \<open>.qcow2\<close> file resolves to a platform,
  that platform replaces the user's value in the context and is what follows \<open>-p\<close> in
  the build command.
\<close>

theorem user_platform_replaced:
  assumes "p \<noteq> []"
    and "validate_inputs ex (init_context iso_tar image_tar (Some p) dn tg cl script) = Inr ctx"
    and "find (has_suffix_ci ''.qcow2'') image_files = Some f"
    and "extract_platform_from_qcow2_filename (path_name f) = Some q"
    and "prepare_build ctx iso_extraction (Inr image_files) = Inr (ctx', cmd)"
  shows "platform ctx = Some p \<and> platform ctx' = Some q \<and>
         take 2 (drop 4 cmd) = [''-p'', q]"
proof -
  from assms(1,2) have c: "ctx = init_context iso_tar image_tar (Some p) dn tg cl script"
    by (auto simp: validate_inputs_def truthy_def init_context_def split: if_splits)
  then have p: "platform ctx = Some p" by (simp add: init_context_def)
  from prepare_build_platform(1) [OF assms(5)] refine_platform_cases [of ctx image_files] assms(3,4)
  have q: "platform ctx' = Some q" by simp
  from prepare_build_platform(2) [OF assms(5)] q
  have "take 2 (drop 4 cmd) = [''-p'', q]"
    by (simp add: build_bake_and_build_command_def str_of_def)
  with p q show ?thesis by simp
qed

theorem user_platform_replaced_witness:
  "\<exists>ctx ctx' cmd.
     validate_inputs (\<lambda>p. True)
       (init_context ''/rel/8000-2512-iso-eft15.1.tar'' ''/rel/8000-2512-f-8101-image-eft15.1.tar''
          (Some ''8101-32FH'') None ''all'' True ''/rel/bake-and-build/bake-and-build.sh'') = Inr ctx \<and>
     prepare_build ctx (Inr [''/tmp/w/8000-2512.iso'']) (Inr [''/tmp/w/8101-x64-25.1.2.qcow2''])
       = Inr (ctx', cmd) \<and>
     platform ctx = Some ''8101-32FH'' \<and> platform ctx' = Some ''8101-32H'' \<and>
     take 2 (drop 4 cmd) = [''-p'', ''8101-32H'']"
proof -
  let ?c0 = "init_context ''/rel/8000-2512-iso-eft15.1.tar'' ''/rel/8000-2512-f-8101-image-eft15.1.tar''
          (Some ''8101-32FH'') None ''all'' True ''/rel/bake-and-build/bake-and-build.sh''"
  have ne: "''8101-32FH'' \<noteq> []" by simp
  have v: "validate_inputs (\<lambda>p. True) ?c0 = Inr ?c0"
    by (simp add: validate_inputs_def truthy_def init_context_def)
  obtain ctx' cmd where h:
    "prepare_build ?c0 (Inr [''/tmp/w/8000-2512.iso'']) (Inr [''/tmp/w/8101-x64-25.1.2.qcow2''])
       = Inr (ctx', cmd)"
    by (simp add: prepare_build_def Let_def find_iso_file_def has_suffix_ci_def path_suffix_def
        path_name_def lower_def lower_char_def upper_letters_def lower_letters_def)
  have f: "find (has_suffix_ci ''.qcow2'') [''/tmp/w/8101-x64-25.1.2.qcow2'']
      = Some ''/tmp/w/8101-x64-25.1.2.qcow2''"
    by code_simp
  have q: "extract_platform_from_qcow2_filename (path_name ''/tmp/w/8101-x64-25.1.2.qcow2'')
      = Some ''8101-32H''"
    by code_simp
  from user_platform_replaced [OF ne v f q h] v h show ?thesis by blast
qed

text \<open>
  Claim C6 as stated fails. An extracted \<open>.qcow2\<close> name resolves to a platform, but it is
  not the first \<open>.qcow2\<close> file, whose name resolves to nothing: the build command keeps
  the user's platform. And with an empty \<open>--platform\<close> value the inference from the
  archive name is not skipped.
\<close>

theorem user_platform_counterexample:
  "validate_inputs (\<lambda>p. True)
     (example_context ''/rel/8000-2512-f-8101-image-eft15.1.tar'' (Some ''8201-32FH''))
     = Inr (example_context ''/rel/8000-2512-f-8101-image-eft15.1.tar'' (Some ''8201-32FH'')) \<and>
   has_suffix_ci ''.qcow2'' ''/tmp/w/8101-x64-25.1.2.qcow2'' \<and>
   extract_platform_from_qcow2_filename (path_name ''/tmp/w/8101-x64-25.1.2.qcow2'')
     = Some ''8101-32H'' \<and>
   (case prepare_build
           (example_context ''/rel/8000-2512-f-8101-image-eft15.1.tar'' (Some ''8201-32FH''))
           (Inr [''/tmp/w/8000-2512.iso''])
           (Inr [''/tmp/w/disk.qcow2'', ''/tmp/w/8101-x64-25.1.2.qcow2'']) of
      Inl e \<Rightarrow> False
    | Inr (ctx', cmd) \<Rightarrow> take 2 (drop 4 cmd) = [''-p'', ''8201-32FH'']) \<and>
   validate_inputs (\<lambda>p. True)
     (example_context ''/rel/8000-2512-f-8101-image-eft15.1.tar'' (Some []))
     = Inr (example_context ''/rel/8000-2512-f-8101-image-eft15.1.tar'' (Some ''8101-32H''))"
  by code_simp

section \<open>Properties of the result reporter\<close>

lemma docker_path_no_match:
  assumes "\<forall>line \<in> set ls. re_search True docker_image_pattern (strip line) = None"
  shows "docker_path_in_lines dk ls = Inr None"
  using assms by (induction ls) simp_all

lemma docker_path_nonempty:
  "docker_path_in_lines dk ls = Inr (Some p) \<Longrightarrow> p \<noteq> []"
  by (induction ls) (auto simp: Let_def split: option.splits if_splits sum.splits bool.splits)

lemma reported_path_nonempty:
  assumes "reported_docker_image_path dk return_code out = Some p"
  shows "return_code = 0" and "p \<noteq> []"
proof -
  from assms show rc: "return_code = 0"
    by (simp add: reported_docker_image_path_def split: if_splits)
  with assms have "docker_path_in_lines dk (split_on CHR 0x0A out) = Inr (Some p)"
    by (simp add: reported_docker_image_path_def extract_docker_image_path_def
        split: sum.splits)
  then show "p \<noteq> []" by (rule docker_path_nonempty)
qed

text \<open>
  Claim C7, as amended. Whenever the extraction has returned an artifact path (which it
  does only after an exit code of 0 of the child, and only when the test that the path
  exists has not raised while the path was extracted) and that path does not exist on
  the disk, the exit code of the workflow is 1.
\<close>

theorem missing_artifact_fails:
  assumes "reported_docker_image_path dk return_code out = Some p"
    and "\<not> present dk (path_str p)"
  shows "exit_code (run_after_build dk fin return_code out) = 1"
proof -
  from reported_path_nonempty [OF assms(1)] have t: "truthy (Some p)"
    by (simp add: truthy_def)
  have "(\<exists>e. report_result dk return_code out = Inl e) \<or>
        report_result dk return_code out = Inr (1, Some p)"
  proof (cases "path_exists dk (path_str p)")
    case (Inl e)
    with assms(1) t show ?thesis by (simp add: report_result_def str_of_def)
  next
    case (Inr ex)
    with assms(2) have "\<not> ex" by (auto simp: path_exists_def split: option.splits)
    with Inr assms(1) t show ?thesis by (simp add: report_result_def str_of_def)
  qed
  then show ?thesis
    by (auto simp: run_after_build_def exit_code_def split: option.splits)
qed

theorem missing_artifact_fails_witness:
  "reported_docker_image_path empty_disk 0
     ''Step 9 done\<newline>Saving docker image, c8000:latest to /out/c8000.tar''
     = Some ''/out/c8000.tar'' \<and>
   exit_code (run_after_build empty_disk quiet_finish 0
     ''Step 9 done\<newline>Saving docker image, c8000:latest to /out/c8000.tar'') = 1"
proof -
  have h: "reported_docker_image_path empty_disk 0
      ''Step 9 done\<newline>Saving docker image, c8000:latest to /out/c8000.tar''
      = Some ''/out/c8000.tar''"
    by code_simp
  have nx: "\<not> present empty_disk (path_str ''/out/c8000.tar'')"
    by (simp add: empty_disk_def)
  from missing_artifact_fails [OF h nx, of quiet_finish] h show ?thesis by simp
qed

text \<open>
  Claim C7 as stated fails: the line of the output matches the pattern and names the
  path \<open>/root/out/c8000.tar\<close>, which does not exist on the disk; the test that it exists
  raises inside the extraction, which then returns no path, and the exit code of the
  workflow is the 0 of the child.
\<close>

theorem missing_artifact_counterexample:
  "(case re_search True docker_image_pattern
           (strip ''Saving docker image, c8000 to /root/out/c8000.tar'') of
      Some m \<Rightarrow> strip (group m 1) = ''/root/out/c8000.tar''
    | None \<Rightarrow> False) \<and>
   \<not> present protected_disk (path_str ''/root/out/c8000.tar'') \<and>
   path_exists protected_disk (path_str ''/root/out/c8000.tar'')
     = Inl (OSError ''[Errno 13] Permission denied'') \<and>
   reported_docker_image_path protected_disk 0
     ''Saving docker image, c8000 to /root/out/c8000.tar'' = None \<and>
   exit_code (run_after_build protected_disk quiet_finish 0
     ''Saving docker image, c8000 to /root/out/c8000.tar'') = 0"
  by code_simp

text \<open>
  Claim C8, as amended. When the child exits with 0 and no line of its output, trimmed,
  matches the pattern \<open>Saving docker image, ... to <path>.tar\<close> (case-insensitive), no
  artifact path is reported and the run returns 0; this is the exit code of the
  workflow when neither the return to the original directory nor the removal of the
  scratch directory raises.
\<close>

theorem no_artifact_line_still_succeeds:
  assumes "\<forall>line \<in> set (split_on CHR 0x0A out).
             re_search True docker_image_pattern (strip line) = None"
    and "chdir_back_raises fin = None" and "temp_cleanup_raises fin = None"
  shows "report_result dk 0 out = Inr (0, None) \<and>
         exit_code (run_after_build dk fin 0 out) = 0"
proof -
  from docker_path_no_match [OF assms(1)]
  have "reported_docker_image_path dk 0 out = None"
    by (simp add: reported_docker_image_path_def extract_docker_image_path_def)
  then have "report_result dk 0 out = Inr (0, None)"
    by (simp add: report_result_def truthy_def)
  with assms(2,3) show ?thesis
    by (simp add: run_after_build_def exit_code_def)
qed

theorem no_artifact_line_still_succeeds_witness:
  "report_result empty_disk 0 ''Step 9 done\<newline>Build finished'' = Inr (0, None) \<and>
   exit_code (run_after_build empty_disk quiet_finish 0 ''Step 9 done\<newline>Build finished'') = 0"
proof -
  have h: "\<forall>line \<in> set (split_on CHR 0x0A ''Step 9 done\<newline>Build finished'').
             re_search True docker_image_pattern (strip line) = None"
    by code_simp
  have c: "chdir_back_raises quiet_finish = None" and t: "temp_cleanup_raises quiet_finish = None"
    by (simp_all add: quiet_finish_def)
  from no_artifact_line_still_succeeds [OF h c t, of empty_disk] show ?thesis .
qed

text \<open>
  Claim C8 as stated fails: the child exits with 0, neither line of its output matches
  the pattern, and the removal of the scratch directory raises; the exit code of the
  workflow is 1.
\<close>

theorem no_artifact_line_counterexample:
  "split_on CHR 0x0A ''Step 9 done\<newline>Build finished'' = [''Step 9 done'', ''Build finished''] \<and>
   re_search True docker_image_pattern (strip ''Step 9 done'') = None \<and>
   re_search True docker_image_pattern (strip ''Build finished'') = None \<and>
   reported_docker_image_path empty_disk 0 ''Step 9 done\<newline>Build finished'' = None \<and>
   exit_code (run_after_build empty_disk failing_cleanup 0 ''Step 9 done\<newline>Build finished'') = 1"
  by code_simp

section \<open>Properties of the drop-folder cleanup\<close>


lemma split_on_single: "c \<notin> set l \<Longrightarrow> split_on c l = [l]"
  by (induction l) auto

lemma cleanup_lines_skip:
  assumes "\<forall>x \<in> set pre. \<not> startswith (strip x) (marker @ '':'')"
  shows "cleanup_lines ops marker w (pre @ post) = cleanup_lines ops marker w post"
  using assms by (induction pre) simp_all

lemma cleanup_lines_first:
  assumes "startswith (strip l) (marker @ '':'')"
  shows "cleanup_lines ops marker w (l # post) = cleanup_lines ops marker w [l]"
  using assms by (simp add: Let_def)

lemma cleanup_first_sentinel:
  assumes "split_on CHR 0x0A out = pre @ l # post"
    and "\<forall>x \<in> set pre. \<not> startswith (strip x) (marker @ '':'')"
    and "startswith (strip l) (marker @ '':'')"
  shows "cleanup_drop_folder ops marker w out = cleanup_drop_folder ops marker w l"
proof -
  have "l \<in> set (split_on CHR 0x0A out)" using assms(1) by simp
  then have "split_on CHR 0x0A l = [l]"
    by (intro split_on_single split_on_no_sep)
  moreover have "cleanup_lines ops marker w (pre @ l # post) = cleanup_lines ops marker w [l]"
  proof -
    have "cleanup_lines ops marker w (pre @ l # post) = cleanup_lines ops marker w (l # post)"
      by (rule cleanup_lines_skip [OF assms(2)])
    also have "\<dots> = cleanup_lines ops marker w [l]"
      by (rule cleanup_lines_first [OF assms(3)])
    finally show ?thesis .
  qed
  ultimately show ?thesis
    unfolding cleanup_drop_folder_def assms(1) by (simp only:)
qed

text \<open>
  Claim C9, as amended. For either marker, the cleanup acts on the first line of the
  captured output that, once surrounding whitespace is trimmed, begins with the
  case-sensitive prefix (\<open>IMG_DROP_FOLDER:\<close>, and independently \<open>YAML_DROP_FOLDER:\<close>):
  its result and its effect are those of the cleanup on that line alone, so the lines
  before it and every later occurrence of the marker are ignored, whether or not
  anything was deleted.
\<close>

theorem first_sentinel_only:
  "(split_on CHR 0x0A out = pre @ l # post \<and>
    (\<forall>x \<in> set pre. \<not> startswith (strip x) ''IMG_DROP_FOLDER:'') \<and>
    startswith (strip l) ''IMG_DROP_FOLDER:''
      \<longrightarrow> cleanup_img_drop_folder ops w out = cleanup_img_drop_folder ops w l) \<and>
   (split_on CHR 0x0A out = pre @ l # post \<and>
    (\<forall>x \<in> set pre. \<not> startswith (strip x) ''YAML_DROP_FOLDER:'') \<and>
    startswith (strip l) ''YAML_DROP_FOLDER:''
      \<longrightarrow> cleanup_yaml_drop_folder ops w out = cleanup_yaml_drop_folder ops w l)"
  using cleanup_first_sentinel [where out = out and pre = pre and l = l
      and post = post and marker = "''IMG_DROP_FOLDER''" and ops = ops and w = w]
    cleanup_first_sentinel [where out = out and pre = pre and l = l
      and post = post and marker = "''YAML_DROP_FOLDER''" and ops = ops and w = w]
  by (simp add: cleanup_img_drop_folder_def cleanup_yaml_drop_folder_def)


theorem first_sentinel_only_witness:
  "cleanup_img_drop_folder list_fs_ops (start_world [''/tmp/drop1'', ''/tmp/drop2''])
     ''build step\<newline>IMG_DROP_FOLDER: /tmp/drop1\<newline>IMG_DROP_FOLDER: /tmp/drop2''
   = cleanup_img_drop_folder list_fs_ops (start_world [''/tmp/drop1'', ''/tmp/drop2''])
       ''IMG_DROP_FOLDER: /tmp/drop1'' \<and>
   fsys (snd (cleanup_img_drop_folder list_fs_ops (start_world [''/tmp/drop1'', ''/tmp/drop2''])
     ''build step\<newline>IMG_DROP_FOLDER: /tmp/drop1\<newline>IMG_DROP_FOLDER: /tmp/drop2'')) = [''/tmp/drop2''] \<and>
   cleanup_yaml_drop_folder list_fs_ops (start_world [''/tmp/y1'', ''/tmp/y2''])
     ''YAML_DROP_FOLDER: /tmp/y1\<newline>YAML_DROP_FOLDER: /tmp/y2''
   = cleanup_yaml_drop_folder list_fs_ops (start_world [''/tmp/y1'', ''/tmp/y2''])
       ''YAML_DROP_FOLDER: /tmp/y1''"
proof -
  have s1: "split_on CHR 0x0A ''build step\<newline>IMG_DROP_FOLDER: /tmp/drop1\<newline>IMG_DROP_FOLDER: /tmp/drop2''
      = [''build step''] @ ''IMG_DROP_FOLDER: /tmp/drop1'' # [''IMG_DROP_FOLDER: /tmp/drop2''] \<and>
    (\<forall>x \<in> set [''build step'']. \<not> startswith (strip x) ''IMG_DROP_FOLDER:'') \<and>
    startswith (strip ''IMG_DROP_FOLDER: /tmp/drop1'') ''IMG_DROP_FOLDER:''"
    by code_simp
  have s2: "split_on CHR 0x0A ''YAML_DROP_FOLDER: /tmp/y1\<newline>YAML_DROP_FOLDER: /tmp/y2''
      = [] @ ''YAML_DROP_FOLDER: /tmp/y1'' # [''YAML_DROP_FOLDER: /tmp/y2''] \<and>
    (\<forall>x \<in> set []. \<not> startswith (strip x) ''YAML_DROP_FOLDER:'') \<and>
    startswith (strip ''YAML_DROP_FOLDER: /tmp/y1'') ''YAML_DROP_FOLDER:''"
    by code_simp
  have r1: "cleanup_img_drop_folder list_fs_ops (start_world [''/tmp/drop1'', ''/tmp/drop2''])
     ''build step\<newline>IMG_DROP_FOLDER: /tmp/drop1\<newline>IMG_DROP_FOLDER: /tmp/drop2''
   = cleanup_img_drop_folder list_fs_ops (start_world [''/tmp/drop1'', ''/tmp/drop2''])
       ''IMG_DROP_FOLDER: /tmp/drop1''"
    using s1 first_sentinel_only
      [where out = "''build step\<newline>IMG_DROP_FOLDER: /tmp/drop1\<newline>IMG_DROP_FOLDER: /tmp/drop2''"
         and pre = "[''build step'']" and l = "''IMG_DROP_FOLDER: /tmp/drop1''"
         and post = "[''IMG_DROP_FOLDER: /tmp/drop2'']" and ops = list_fs_ops
         and w = "start_world [''/tmp/drop1'', ''/tmp/drop2'']"]
    by blast
  have r2: "cleanup_yaml_drop_folder list_fs_ops (start_world [''/tmp/y1'', ''/tmp/y2''])
     ''YAML_DROP_FOLDER: /tmp/y1\<newline>YAML_DROP_FOLDER: /tmp/y2''
   = cleanup_yaml_drop_folder list_fs_ops (start_world [''/tmp/y1'', ''/tmp/y2''])
       ''YAML_DROP_FOLDER: /tmp/y1''"
    using s2 first_sentinel_only
      [where out = "''YAML_DROP_FOLDER: /tmp/y1\<newline>YAML_DROP_FOLDER: /tmp/y2''"
         and pre = "[]" and l = "''YAML_DROP_FOLDER: /tmp/y1''"
         and post = "[''YAML_DROP_FOLDER: /tmp/y2'']" and ops = list_fs_ops
         and w = "start_world [''/tmp/y1'', ''/tmp/y2'']"]
    by blast
  have e: "fsys (snd (cleanup_img_drop_folder list_fs_ops (start_world [''/tmp/drop1'', ''/tmp/drop2''])
       ''IMG_DROP_FOLDER: /tmp/drop1'')) = [''/tmp/drop2'']"
    by code_simp
  from r1 r2 e show ?thesis by simp
qed

text \<open>
  Claim C9 as stated fails: the first line does not begin with the prefix (it is
  indented), the second line does, and the cleanup removes the directory named on the
  first line, leaving the one named on the second.
\<close>

theorem first_sentinel_counterexample:
  "split_on CHR 0x0A ''  IMG_DROP_FOLDER: /tmp/a\<newline>IMG_DROP_FOLDER: /tmp/b''
     = [''  IMG_DROP_FOLDER: /tmp/a'', ''IMG_DROP_FOLDER: /tmp/b''] \<and>
   \<not> startswith ''  IMG_DROP_FOLDER: /tmp/a'' ''IMG_DROP_FOLDER:'' \<and>
   startswith ''IMG_DROP_FOLDER: /tmp/b'' ''IMG_DROP_FOLDER:'' \<and>
   fsys (snd (cleanup_img_drop_folder list_fs_ops (start_world [''/tmp/a'', ''/tmp/b''])
     ''  IMG_DROP_FOLDER: /tmp/a\<newline>IMG_DROP_FOLDER: /tmp/b'')) = [''/tmp/b'']"
  by code_simp

lemma cleanup_drop_folder_returns:
  "\<exists>done. fst (cleanup_drop_folder ops marker w out) = Inr done"
  by (auto simp: cleanup_drop_folder_def split: prod.splits sum.splits)

lemma after_child_returns:
  "fst (after_child ops signs w return_code all_output) = (return_code, join_lines all_output)"
proof -
  let ?out = "join_lines all_output"
  obtain b1 w1 where 1: "cleanup_img_drop_folder ops w ?out = (Inr b1, w1)"
    using cleanup_drop_folder_returns [of ops "''IMG_DROP_FOLDER''" w ?out]
    by (cases "cleanup_img_drop_folder ops w ?out") (auto simp: cleanup_img_drop_folder_def)
  let ?w1 = "log_msg INFO (if b1 then broom signs @ '' Cleaned up IMG_DROP_FOLDER''
                else info_sign signs @ ''  No IMG_DROP_FOLDER found to clean up'') w1"
  obtain b2 w2 where 2: "cleanup_yaml_drop_folder ops ?w1 ?out = (Inr b2, w2)"
    using cleanup_drop_folder_returns [of ops "''YAML_DROP_FOLDER''" ?w1 ?out]
    by (cases "cleanup_yaml_drop_folder ops ?w1 ?out") (auto simp: cleanup_yaml_drop_folder_def)
  from 1 2 show ?thesis
    by (simp add: after_child_def Let_def)
qed

text \<open>
  Claim C10, as amended. For the first sentinel line of the output, the only one the
  cleanup processes: when the directory it names does not exist or is not a directory,
  the cleanup returns \<open>False\<close>, leaves the file system as it was and logs one warning,
  that the folder does not exist or is not a directory; when the recursive removal
  fails, the cleanup logs one warning with the text of the failure and returns
  \<open>False\<close>. The cleanup returns a value, never an exception, also when a test on the
  file system raises, and so the supervision of the child returns the exit code and
  the output of the child.
\<close>

theorem cleanup_never_fatal:
  assumes "split_on CHR 0x0A (join_lines all_output) = pre @ l # post"
    and "\<forall>x \<in> set pre. \<not> startswith (strip x) ''IMG_DROP_FOLDER:''"
    and "startswith (strip l) ''IMG_DROP_FOLDER:''"
    and "folder = path_str (strip (after_colon (strip l)))"
    and "res = cleanup_img_drop_folder ops w (join_lines all_output)"
  shows
    "(dir_exists ops (fsys w) folder = Inr False \<or>
      dir_exists ops (fsys w) folder = Inr True \<and> dir_is_dir ops (fsys w) folder = Inr False
        \<longrightarrow> fst res = Inr False \<and> fsys (snd res) = fsys w \<and>
            logged (snd res) = logged w @
              [(WARNING, ''IMG_DROP_FOLDER does not exist or is not a directory: '' @ folder)]) \<and>
     (dir_exists ops (fsys w) folder = Inr True \<and> dir_is_dir ops (fsys w) folder = Inr True \<and>
      rmtree ops (fsys w) folder = (Some e, fs')
        \<longrightarrow> fst res = Inr False \<and> fsys (snd res) = fs' \<and>
            logged (snd res) = logged w @
              [(DEBUG, ''Cleaning up IMG_DROP_FOLDER: '' @ folder),
               (WARNING, ''Failed to remove IMG_DROP_FOLDER '' @ folder @ '': '' @ error_text e)]) \<and>
     (\<exists>done. fst res = Inr done) \<and>
     fst (after_child ops signs w return_code all_output) = (return_code, join_lines all_output)"
proof -
  let ?out = "join_lines all_output"
  have first: "res = cleanup_img_drop_folder ops w l"
    using cleanup_first_sentinel [OF assms(1), where marker = "''IMG_DROP_FOLDER''"] assms(2,3,5)
    by (simp add: cleanup_img_drop_folder_def)
  have "l \<in> set (split_on CHR 0x0A ?out)" using assms(1) by simp
  then have single: "split_on CHR 0x0A l = [l]"
    by (intro split_on_single split_on_no_sep)
  note defs = cleanup_img_drop_folder_def cleanup_drop_folder_def single Let_def log_msg_def
  have a: "dir_exists ops (fsys w) folder = Inr False \<or>
      dir_exists ops (fsys w) folder = Inr True \<and> dir_is_dir ops (fsys w) folder = Inr False
        \<longrightarrow> fst res = Inr False \<and> fsys (snd res) = fsys w \<and>
            logged (snd res) = logged w @
              [(WARNING, ''IMG_DROP_FOLDER does not exist or is not a directory: '' @ folder)]"
    using assms(3,4) unfolding first by (auto simp: defs)
  have b: "dir_exists ops (fsys w) folder = Inr True \<and> dir_is_dir ops (fsys w) folder = Inr True \<and>
      rmtree ops (fsys w) folder = (Some e, fs')
        \<longrightarrow> fst res = Inr False \<and> fsys (snd res) = fs' \<and>
            logged (snd res) = logged w @
              [(DEBUG, ''Cleaning up IMG_DROP_FOLDER: '' @ folder),
               (WARNING, ''Failed to remove IMG_DROP_FOLDER '' @ folder @ '': '' @ error_text e)]"
    using assms(3,4) unfolding first by (auto simp: defs)
  have c: "\<exists>done. fst res = Inr done"
    unfolding assms(5) cleanup_img_drop_folder_def by (rule cleanup_drop_folder_returns)
  from a b c after_child_returns [of ops signs w return_code all_output] show ?thesis by blast
qed

theorem cleanup_never_fatal_witness:
  "cleanup_img_drop_folder list_fs_ops (start_world [''/tmp/other''])
       (join_lines [''step 1'', ''IMG_DROP_FOLDER: /tmp/gone/''])
     = (Inr False,
        \<lparr> fsys = [''/tmp/other''],
          logged = [(WARNING, ''IMG_DROP_FOLDER does not exist or is not a directory: /tmp/gone'')] \<rparr>) \<and>
   cleanup_img_drop_folder stuck_fs_ops (start_world [''/tmp/drop1''])
       (join_lines [''IMG_DROP_FOLDER: /tmp/drop1''])
     = (Inr False,
        \<lparr> fsys = [''/tmp/drop1''],
          logged = [(DEBUG, ''Cleaning up IMG_DROP_FOLDER: /tmp/drop1''),
                    (WARNING, ''Failed to remove IMG_DROP_FOLDER /tmp/drop1: [Errno 13] Permission denied'')] \<rparr>) \<and>
   fst (after_child stuck_fs_ops plain_signs (start_world [''/tmp/drop1'']) 0
          [''IMG_DROP_FOLDER: /tmp/drop1''])
     = (0, ''IMG_DROP_FOLDER: /tmp/drop1'')"
proof -
  let ?o1 = "[''step 1'', ''IMG_DROP_FOLDER: /tmp/gone/'']"
  let ?o2 = "[''IMG_DROP_FOLDER: /tmp/drop1'']"
  let ?w1 = "start_world [''/tmp/other'']"
  let ?w2 = "start_world [''/tmp/drop1'']"
  let ?r1 = "cleanup_img_drop_folder list_fs_ops ?w1 (join_lines ?o1)"
  let ?r2 = "cleanup_img_drop_folder stuck_fs_ops ?w2 (join_lines ?o2)"
  have s1: "split_on CHR 0x0A (join_lines ?o1) = [''step 1''] @ ''IMG_DROP_FOLDER: /tmp/gone/'' # []"
    and p1: "\<forall>x \<in> set [''step 1'']. \<not> startswith (strip x) ''IMG_DROP_FOLDER:''"
    and l1: "startswith (strip ''IMG_DROP_FOLDER: /tmp/gone/'') ''IMG_DROP_FOLDER:''"
    and f1: "''/tmp/gone'' = path_str (strip (after_colon (strip ''IMG_DROP_FOLDER: /tmp/gone/'')))"
    and x1: "dir_exists list_fs_ops (fsys ?w1) ''/tmp/gone'' = Inr False"
    by code_simp+
  have s2: "split_on CHR 0x0A (join_lines ?o2) = [] @ ''IMG_DROP_FOLDER: /tmp/drop1'' # []"
    and p2: "\<forall>x \<in> set []. \<not> startswith (strip x) ''IMG_DROP_FOLDER:''"
    and l2: "startswith (strip ''IMG_DROP_FOLDER: /tmp/drop1'') ''IMG_DROP_FOLDER:''"
    and f2: "''/tmp/drop1'' = path_str (strip (after_colon (strip ''IMG_DROP_FOLDER: /tmp/drop1'')))"
    and x2: "dir_exists stuck_fs_ops (fsys ?w2) ''/tmp/drop1'' = Inr True
      \<and> dir_is_dir stuck_fs_ops (fsys ?w2) ''/tmp/drop1'' = Inr True
      \<and> rmtree stuck_fs_ops (fsys ?w2) ''/tmp/drop1''
          = (Some (OSError ''[Errno 13] Permission denied''), [''/tmp/drop1''])"
    by code_simp+
  have w: "fsys ?w1 = [''/tmp/other'']" "logged ?w1 = []" "fsys ?w2 = [''/tmp/drop1'']" "logged ?w2 = []"
    by (simp_all add: start_world_def)
  from cleanup_never_fatal [OF s1 p1 l1 f1 refl, where ops = list_fs_ops and w = ?w1] x1 w
  have r1: "fst ?r1 = Inr False \<and> fsys (snd ?r1) = [''/tmp/other''] \<and>
      logged (snd ?r1) = [(WARNING, ''IMG_DROP_FOLDER does not exist or is not a directory: /tmp/gone'')]"
    by simp
  from cleanup_never_fatal [OF s2 p2 l2 f2 refl, where ops = stuck_fs_ops and w = ?w2
      and e = "OSError ''[Errno 13] Permission denied''" and fs' = "[''/tmp/drop1'']"
      and return_code = 0 and signs = plain_signs] x2 w
  have r2: "fst ?r2 = Inr False \<and> fsys (snd ?r2) = [''/tmp/drop1''] \<and>
      logged (snd ?r2) = [(DEBUG, ''Cleaning up IMG_DROP_FOLDER: /tmp/drop1''),
         (WARNING, ''Failed to remove IMG_DROP_FOLDER /tmp/drop1: [Errno 13] Permission denied'')]"
    and r3: "fst (after_child stuck_fs_ops plain_signs ?w2 0 ?o2) = (0, join_lines ?o2)"
    by simp_all
  have j: "join_lines ?o2 = ''IMG_DROP_FOLDER: /tmp/drop1''" by (simp add: join_lines_def)
  from r1 have "?r1 = (Inr False, \<lparr> fsys = [''/tmp/other''],
      logged = [(WARNING, ''IMG_DROP_FOLDER does not exist or is not a directory: /tmp/gone'')] \<rparr>)"
    by (cases ?r1) auto
  moreover from r2 have "?r2 = (Inr False, \<lparr> fsys = [''/tmp/drop1''],
      logged = [(DEBUG, ''Cleaning up IMG_DROP_FOLDER: /tmp/drop1''),
         (WARNING, ''Failed to remove IMG_DROP_FOLDER /tmp/drop1: [Errno 13] Permission denied'')] \<rparr>)"
    by (cases ?r2) auto
  ultimately show ?thesis using r3 j by simp
qed

text \<open>
  Claim C10 as stated fails for a sentinel line that is not the first: the second
  sentinel line names a directory that does not exist, and the cleanup removes the
  directory of the first line, returns \<open>True\<close> and logs no warning.
\<close>

theorem cleanup_counterexample:
  "split_on CHR 0x0A ''IMG_DROP_FOLDER: /tmp/drop1\<newline>IMG_DROP_FOLDER: /tmp/gone''
     = [''IMG_DROP_FOLDER: /tmp/drop1'', ''IMG_DROP_FOLDER: /tmp/gone''] \<and>
   startswith (strip ''IMG_DROP_FOLDER: /tmp/gone'') ''IMG_DROP_FOLDER:'' \<and>
   dir_exists list_fs_ops [''/tmp/drop1''] ''/tmp/gone'' = Inr False \<and>
   cleanup_img_drop_folder list_fs_ops (start_world [''/tmp/drop1''])
       ''IMG_DROP_FOLDER: /tmp/drop1\<newline>IMG_DROP_FOLDER: /tmp/gone''
     = (Inr True,
        \<lparr> fsys = [],
          logged = [(DEBUG, ''Cleaning up IMG_DROP_FOLDER: /tmp/drop1''),
                    (INFO, ''Successfully removed IMG_DROP_FOLDER: /tmp/drop1'')] \<rparr>)"
  by code_simp

section \<open>Properties of the matcher and of the input resolver\<close>


lemma takeWhile_prefix_iff:
  "n \<le> length (takeWhile p s) \<longleftrightarrow> n \<le> length s \<and> list_all p (take n s)"
proof (induction s arbitrary: n)
  case Nil
  then show ?case by simp
next
  case (Cons x xs)
  then show ?case by (cases n) auto
qed

lemma lit_matches_take: "lit_matches False w s \<longleftrightarrow> take (length w) s = w"
proof (induction w arbitrary: s)
  case Nil
  then show ?case by simp
next
  case (Cons c w)
  then show ?case by (cases s) auto
qed

lemma in_run_Str:
  "(g', r) \<in> set (rx_run False (Str w) (g, s)) \<longleftrightarrow> g' = g \<and> s = w @ r"
proof -
  have "take (length w) s = w \<longleftrightarrow> s = w @ drop (length w) s"
    by (metis append_eq_conv_conj append_take_drop_id)
  then show ?thesis
    by (auto simp: lit_matches_take)
qed

lemma in_run_Plus:
  "(g', r) \<in> set (rx_run ic (Plus p) (g, s)) \<longleftrightarrow>
     g' = g \<and> (\<exists>c. c \<noteq> [] \<and> list_all p c \<and> s = c @ r)"
proof
  assume "(g', r) \<in> set (rx_run ic (Plus p) (g, s))"
  then obtain n where n: "1 \<le> n" "n \<le> length (takeWhile p s)" and r: "r = drop n s" and g: "g' = g"
    by auto
  from n have "n \<le> length s" "list_all p (take n s)" "take n s \<noteq> []"
    by (auto simp: takeWhile_prefix_iff)
  with r g show "g' = g \<and> (\<exists>c. c \<noteq> [] \<and> list_all p c \<and> s = c @ r)"
    by (metis append_take_drop_id)
next
  assume "g' = g \<and> (\<exists>c. c \<noteq> [] \<and> list_all p c \<and> s = c @ r)"
  then obtain c where c: "c \<noteq> []" "list_all p c" "s = c @ r" and g: "g' = g" by blast
  then have "length c \<le> length (takeWhile p s)" "1 \<le> length c" "r = drop (length c) s"
    by (auto simp: takeWhile_prefix_iff Suc_le_eq)
  then have "length c \<in> set (rev [1 ..< Suc (length (takeWhile p s))])"
    and "(g', r) = (g, drop (length c) s)"
    using g by (auto simp: le_less)
  then show "(g', r) \<in> set (rx_run ic (Plus p) (g, s))"
    unfolding rx_run.simps set_map by (rule image_eqI [rotated])
qed

lemma in_run_Seq:
  "(g', r) \<in> set (rx_run ic (Seq a b) st) \<longleftrightarrow>
     (\<exists>g1 s1. (g1, s1) \<in> set (rx_run ic a st) \<and> (g', r) \<in> set (rx_run ic b (g1, s1)))"
  by auto

lemma in_run_Opt:
  "x \<in> set (rx_run ic (Opt a) st) \<longleftrightarrow> x \<in> set (rx_run ic a st) \<or> x = st"
  by auto

lemma in_run_Eol:
  "(g', r) \<in> set (rx_run ic Eol (g, s)) \<longleftrightarrow> g' = g \<and> r = s \<and> (s = [] \<or> s = [CHR 0x0A])"
  by auto

lemma in_run_Cls:
  "(g', r) \<in> set (rx_run ic (Cls p) (g, s)) \<longleftrightarrow> g' = g \<and> (\<exists>c. p c \<and> s = c # r)"
  by (auto split: list.splits)


lemma rx_run_suffix:
  "(g', r) \<in> set (rx_run ic a (g, s)) \<Longrightarrow> \<exists>c. s = c @ r"
proof (induction a arbitrary: g s g' r)
  case (Str w)
  then have "r = drop (length w) s" by (auto split: if_splits)
  then show ?case by (metis append_take_drop_id)
next
  case (Cls p)
  then show ?case by (auto split: list.splits if_splits)
next
  case (Plus p)
  then obtain n where "r = drop n s" by auto
  then show ?case by (metis append_take_drop_id)
next
  case (LazyStar p)
  then obtain n where "r = drop n s" by auto
  then show ?case by (metis append_take_drop_id)
next
  case (Rep n p)
  then have "r = drop n s" by (auto split: if_splits)
  then show ?case by (metis append_take_drop_id)
next
  case (Seq a b)
  from Seq.prems obtain g1 s1 where 1: "(g1, s1) \<in> set (rx_run ic a (g, s))"
    and 2: "(g', r) \<in> set (rx_run ic b (g1, s1))"
    by auto
  from Seq.IH(1) [OF 1] Seq.IH(2) [OF 2] show ?case by auto
next
  case (Alt a b)
  then show ?case by auto
next
  case (Opt a)
  then show ?case by auto
next
  case (Grp n a)
  then show ?case by auto
next
  case Eol
  then show ?case by (auto split: if_splits)
qed

lemma in_run_Grp:
  "(g', r) \<in> set (rx_run ic (Grp n a) (g, s)) \<longleftrightarrow>
     (\<exists>g'' c. (g'', r) \<in> set (rx_run ic a (g, s)) \<and> s = c @ r \<and> g' = (n, c) # g'')"
proof
  assume "(g', r) \<in> set (rx_run ic (Grp n a) (g, s))"
  then obtain g'' where m: "(g'', r) \<in> set (rx_run ic a (g, s))"
    and g': "g' = (n, take (length s - length r) s) # g''"
    by auto
  from rx_run_suffix [OF m] obtain c where "s = c @ r" by blast
  with m g' show "\<exists>g'' c. (g'', r) \<in> set (rx_run ic a (g, s)) \<and> s = c @ r \<and> g' = (n, c) # g''"
    by auto
next
  assume "\<exists>g'' c. (g'', r) \<in> set (rx_run ic a (g, s)) \<and> s = c @ r \<and> g' = (n, c) # g''"
  then obtain g'' c where m: "(g'', r) \<in> set (rx_run ic a (g, s))" and "s = c @ r"
    and "g' = (n, c) # g''"
    by blast
  then have "g' = (n, take (length s - length r) s) # g''" by simp
  with m show "(g', r) \<in> set (rx_run ic (Grp n a) (g, s))"
    by (auto simp: image_iff intro!: bexI [of _ "(g'', r)"])
qed

lemma in_release_group:
  "(g', r) \<in> set (rx_run False release_group (g, s)) \<longleftrightarrow>
     (\<exists>ds. ds \<noteq> [] \<and> list_all cls_d ds \<and> s = ''8000-'' @ ds @ r \<and>
           g' = (1, ''8000-'' @ ds) # g)"
  unfolding release_group_def
  by (auto simp del: rx_run.simps simp add: in_run_Grp in_run_Seq in_run_Str in_run_Plus)

lemma in_platform_part:
  "(g', r) \<in> set (rx_run False platform_part (g, s)) \<longleftrightarrow>
     g' = g \<and>
     (\<exists>ps sfx. ps \<noteq> [] \<and> list_all cls_d ps \<and> s = ps @ sfx @ r \<and>
        (sfx = [] \<or> (\<exists>ws. ws \<noteq> [] \<and> list_all cls_w_dash ws \<and> sfx = CHR ''-'' # ws)))"
  unfolding platform_part_def
  by (auto simp del: rx_run.simps simp add: in_run_Seq in_run_Opt in_run_Str in_run_Plus)

lemma in_eft_tail:
  "(g', r) \<in> set (rx_run False eft_tail (g, s)) \<longleftrightarrow>
     (\<exists>vs. vs \<noteq> [] \<and> list_all cls_d_dot vs \<and> s = ''eft'' @ vs @ ''.tar'' @ r \<and>
           (r = [] \<or> r = [CHR 0x0A]) \<and> g' = (2, ''eft'' @ vs) # g)"
  unfolding eft_tail_def
  by (auto simp del: rx_run.simps
      simp add: in_run_Seq in_run_Grp in_run_Str in_run_Plus in_run_Eol)


lemma run_unique:
  assumes "list_all p a" "list_all p b" "\<not> p c" "\<not> p d" "a @ c # x = b @ d # y"
  shows "a = b \<and> c = d \<and> x = y"
  using assms
proof (induction a arbitrary: b)
  case Nil
  then show ?case by (cases b) auto
next
  case (Cons h a)
  then show ?case by (cases b) auto
qed

lemma in_shape_pattern:
  "(g', r) \<in> set (rx_run False (shape_pattern mk lit) ([], s)) \<longleftrightarrow>
     (\<exists>ds ps sfx vs.
        ds \<noteq> [] \<and> list_all cls_d ds \<and> ps \<noteq> [] \<and> list_all cls_d ps \<and>
        (sfx = [] \<or> (\<exists>ws. ws \<noteq> [] \<and> list_all cls_w_dash ws \<and> sfx = CHR ''-'' # ws)) \<and>
        vs \<noteq> [] \<and> list_all cls_d_dot vs \<and>
        s = ''8000-'' @ ds @ mk @ ps @ sfx @ lit @ ''eft'' @ vs @ ''.tar'' @ r \<and>
        (r = [] \<or> r = [CHR 0x0A]) \<and>
        g' = [(2, ''eft'' @ vs), (1, ''8000-'' @ ds)])"
  unfolding shape_pattern_def
  apply (simp del: rx_run.simps
      add: in_run_Seq in_run_Str in_release_group in_platform_part in_eft_tail)
  apply (rule iffI)
   apply (elim exE conjE)
   apply (simp, blast)
  apply (elim exE conjE)
  apply (simp, blast)
  done


lemma shape_match:
  assumes ds: "ds \<noteq> []" "list_all cls_d ds"
    and ps: "ps \<noteq> []" "list_all cls_d ps"
    and sfx: "sfx = [] \<or> (\<exists>ws. ws \<noteq> [] \<and> list_all cls_w_dash ws \<and> sfx = CHR ''-'' # ws)"
    and vs: "vs \<noteq> []" "list_all cls_d_dot vs"
  shows "re_match False (shape_pattern (CHR ''-'' # mk) lit)
           (''8000-'' @ ds @ (CHR ''-'' # mk) @ ps @ sfx @ lit @ ''eft'' @ vs @ ''.tar'')
         = Some [(2, ''eft'' @ vs), (1, ''8000-'' @ ds)]"
proof -
  let ?S = "''8000-'' @ ds @ (CHR ''-'' # mk) @ ps @ sfx @ lit @ ''eft'' @ vs @ ''.tar''"
  let ?L = "rx_run False (shape_pattern (CHR ''-'' # mk) lit) ([], ?S)"
  let ?G = "[(2, ''eft'' @ vs), (1::nat, ''8000-'' @ ds)]"
  have ex: "(?G, []) \<in> set ?L"
    unfolding in_shape_pattern using ds ps sfx vs
    by (intro exI [of _ ds] exI [of _ ps] exI [of _ sfx] exI [of _ vs]) simp
  have all: "g' = ?G" if m: "(g', r) \<in> set ?L" for g' r
  proof -
    from m [unfolded in_shape_pattern] obtain ds' ps' sfx' vs' where
      ds': "list_all cls_d ds'" and vs': "list_all cls_d_dot vs'"
      and S: "?S = ''8000-'' @ ds' @ (CHR ''-'' # mk) @ ps' @ sfx' @ lit @ ''eft'' @ vs' @ ''.tar'' @ r"
      and r: "r = [] \<or> r = [CHR 0x0A]"
      and g': "g' = [(2, ''eft'' @ vs'), (1, ''8000-'' @ ds')]"
      by blast
    have nd: "\<not> cls_d CHR ''-''" by (simp add: cls_d_def is_digit_def)
    from S have "ds @ CHR ''-'' # (mk @ ps @ sfx @ lit @ ''eft'' @ vs @ ''.tar'')
        = ds' @ CHR ''-'' # (mk @ ps' @ sfx' @ lit @ ''eft'' @ vs' @ ''.tar'' @ r)"
      by simp
    from run_unique [OF ds(2) ds' nd nd this] have dd: "ds = ds'" by simp
    have "r = []"
    proof (rule ccontr)
      assume "r \<noteq> []"
      with r have "r = [CHR 0x0A]" by simp
      with S have "last ?S = CHR 0x0A" by (simp del: append.simps add: last_append)
      moreover have "last ?S = CHR ''r''" by (simp add: last_append)
      ultimately show False by simp
    qed
    have F: "rev (X @ ''eft'' @ v) = rev v @ CHR ''t'' # (''fe'' @ rev X)" for X v :: string
      by simp
    from S \<open>r = []\<close>
    have "(''8000-'' @ ds @ (CHR ''-'' # mk) @ ps @ sfx @ lit) @ ''eft'' @ vs
        = (''8000-'' @ ds' @ (CHR ''-'' # mk) @ ps' @ sfx' @ lit) @ ''eft'' @ vs'"
      by simp
    then have "rev ((''8000-'' @ ds @ (CHR ''-'' # mk) @ ps @ sfx @ lit) @ ''eft'' @ vs)
        = rev ((''8000-'' @ ds' @ (CHR ''-'' # mk) @ ps' @ sfx' @ lit) @ ''eft'' @ vs')"
      by (rule arg_cong)
    then have "rev vs @ CHR ''t'' # (''fe'' @ rev (''8000-'' @ ds @ (CHR ''-'' # mk) @ ps @ sfx @ lit))
        = rev vs' @ CHR ''t'' # (''fe'' @ rev (''8000-'' @ ds' @ (CHR ''-'' # mk) @ ps' @ sfx' @ lit))"
      by (simp only: F)
    moreover have nt: "\<not> cls_d_dot CHR ''t''" by (simp add: cls_d_dot_def cls_d_def is_digit_def)
    moreover have "list_all cls_d_dot (rev vs)" "list_all cls_d_dot (rev vs')"
      using vs(2) vs' by (simp_all add: list_all_iff)
    ultimately have "rev vs = rev vs'"
      using run_unique [of cls_d_dot "rev vs" "rev vs'" "CHR ''t''" "CHR ''t''"] by blast
    then have "vs = vs'" by simp
    with dd g' show ?thesis by simp
  qed
  from ex obtain g0 r0 rest where L: "?L = (g0, r0) # rest"
    by (cases ?L) auto
  then have "(g0, r0) \<in> set ?L" by simp
  then have "g0 = ?G" by (rule all)
  with L show ?thesis by (simp add: re_match_def del: rx_run.simps)
qed

lemma shape_mismatch:
  assumes ds: "list_all cls_d ds" and ne: "mk \<noteq> mk'" and len: "length mk = length mk'"
  shows "re_match False (shape_pattern (CHR ''-'' # mk) lit)
           (''8000-'' @ ds @ (CHR ''-'' # mk') @ t) = None"
proof -
  let ?S = "''8000-'' @ ds @ (CHR ''-'' # mk') @ t"
  let ?L = "rx_run False (shape_pattern (CHR ''-'' # mk) lit) ([], ?S)"
  have "?L = []"
  proof (rule ccontr)
    assume "?L \<noteq> []"
    then obtain g' r where "(g', r) \<in> set ?L" by (cases ?L) auto
    from this [unfolded in_shape_pattern] obtain ds' u where
      ds': "list_all cls_d ds'" and S: "?S = ''8000-'' @ ds' @ (CHR ''-'' # mk) @ u"
      by blast
    have nd: "\<not> cls_d CHR ''-''" by (simp add: cls_d_def is_digit_def)
    from S have "ds @ CHR ''-'' # (mk' @ t) = ds' @ CHR ''-'' # (mk @ u)" by simp
    from run_unique [OF ds ds' nd nd this] have "mk' @ t = mk @ u" by simp
    with len have "mk' = mk" by simp
    with ne show False by simp
  qed
  then show ?thesis by (simp add: re_match_def del: rx_run.simps)
qed


text \<open>
  Claim C4, as amended. For every image-archive name \<open>rel-f-plat-image-eft.tar\<close> or
  \<open>rel-d-plat-images-eft.tar\<close> in which \<open>rel\<close> is \<open>8000-\<close> followed by digits, \<open>plat\<close> is
  digits optionally followed by \<open>-\<close> and word characters or dashes, and \<open>eft\<close> is \<open>eft\<close>
  followed by digits and dots, the name the resolver reconstructs is exactly
  \<open>rel-iso-eft.tar\<close>: release identifier and eft tag verbatim, the segments between them
  replaced by \<open>iso\<close>.
\<close>

theorem companion_archive_name:
  assumes "ds \<noteq> []" and "list_all cls_d ds" and "rel = ''8000-'' @ ds"
    and "ps \<noteq> []" and "list_all cls_d ps"
    and "sfx = [] \<or> (\<exists>ws. ws \<noteq> [] \<and> list_all cls_w_dash ws \<and> sfx = CHR ''-'' # ws)"
    and "plat = ps @ sfx"
    and "vs \<noteq> []" and "list_all cls_d_dot vs" and "eft = ''eft'' @ vs"
  shows "expected_iso_name (rel @ ''-f-'' @ plat @ ''-image-'' @ eft @ ''.tar'')
           = Some (rel @ ''-iso-'' @ eft @ ''.tar'') \<and>
         expected_iso_name (rel @ ''-d-'' @ plat @ ''-images-'' @ eft @ ''.tar'')
           = Some (rel @ ''-iso-'' @ eft @ ''.tar'')"
proof -
  have f: "re_match False fixed_pattern (rel @ ''-f-'' @ plat @ ''-image-'' @ eft @ ''.tar'')
      = Some [(2, eft), (1, rel)]"
    using shape_match [OF assms(1,2,4,5,6,8,9), of "''f-''" "''-image-''"] assms(3,7,10)
    by (simp add: fixed_pattern_def)
  have nf: "re_match False fixed_pattern (rel @ ''-d-'' @ plat @ ''-images-'' @ eft @ ''.tar'')
      = None"
    using shape_mismatch [OF assms(2), of "''f-''" "''d-''" "''-image-''"
        "plat @ ''-images-'' @ eft @ ''.tar''"] assms(3)
    by (simp add: fixed_pattern_def)
  have d: "re_match False distributed_pattern (rel @ ''-d-'' @ plat @ ''-images-'' @ eft @ ''.tar'')
      = Some [(2, eft), (1, rel)]"
    using shape_match [OF assms(1,2,4,5,6,8,9), of "''d-''" "''-images-''"] assms(3,7,10)
    by (simp add: distributed_pattern_def)
  have ne: "rel \<noteq> []" "eft \<noteq> []" using assms(3,10) by simp_all
  have g: "group [(2, eft), (1, rel)] 1 = rel" "group [(2, eft), (1, rel)] 2 = eft"
    by (simp_all add: group_def)
  from f g ne have 1: "expected_iso_name (rel @ ''-f-'' @ plat @ ''-image-'' @ eft @ ''.tar'')
           = Some (rel @ ''-iso-'' @ eft @ ''.tar'')"
    by (simp add: expected_iso_name_def patterns_def)
  from nf d g ne have 2: "expected_iso_name (rel @ ''-d-'' @ plat @ ''-images-'' @ eft @ ''.tar'')
           = Some (rel @ ''-iso-'' @ eft @ ''.tar'')"
    by (simp add: expected_iso_name_def patterns_def)
  from 1 2 show ?thesis ..
qed

theorem companion_archive_name_witness:
  "expected_iso_name ''8000-2512-f-8101-32FH-image-eft15.1.tar'' = Some ''8000-2512-iso-eft15.1.tar'' \<and>
   expected_iso_name ''8000-2512-d-8101-32FH-images-eft15.1.tar'' = Some ''8000-2512-iso-eft15.1.tar''"
proof -
  have h: "''2512'' \<noteq> []" "list_all cls_d ''2512''" "''8000-2512'' = ''8000-'' @ ''2512''"
    "''8101'' \<noteq> []" "list_all cls_d ''8101''"
    "''-32FH'' = [] \<or> (\<exists>ws. ws \<noteq> [] \<and> list_all cls_w_dash ws \<and> ''-32FH'' = CHR ''-'' # ws)"
    "''8101-32FH'' = ''8101'' @ ''-32FH''"
    "''15.1'' \<noteq> []" "list_all cls_d_dot ''15.1''" "''eft15.1'' = ''eft'' @ ''15.1''"
    by (simp_all add: cls_d_def is_digit_def cls_d_dot_def cls_w_dash_def cls_w_def
        upper_letters_def lower_letters_def)
  from companion_archive_name [OF h] show ?thesis by simp
qed

text \<open>
  Claim C4 as stated fails: names of the two shapes whose platform does not begin
  with a digit (\<open>ncs1010\<close>, a platform of the table) or whose release identifier does not
  begin with \<open>8000-\<close> are not recognised, and no name is reconstructed for them.
\<close>

theorem companion_archive_name_counterexample:
  "platform_mapping ''ncs1010'' = Some ''ncs1010'' \<and>
   expected_iso_name (''8000-2512'' @ ''-f-'' @ ''ncs1010'' @ ''-image-'' @ ''eft15.1'' @ ''.tar'') = None \<and>
   expected_iso_name (''8100-2512'' @ ''-d-'' @ ''8808'' @ ''-images-'' @ ''eft15.1'' @ ''.tar'') = None"
  by code_simp

section \<open>The extension of a disk-image name\<close>

text \<open>
  Claim C5 at the input \<open>8000-x64.QCOW2\<close>. The refinement stage takes this file for a
  disk image, since it compares the lowered suffix with \<open>.qcow2\<close>; the extraction removes
  the lower-case text \<open>.qcow2\<close> only, so the extension stays in the stem, neither table
  lookup applies, and the result comes from the leading four digits: \<open>8000\<close>. With the
  extension stripped, the stem \<open>8000-x64\<close> is a key of the companion table, for
  \<open>8201-sys\<close>, as the same name with a lower-case extension shows. The example of the
  claim, \<open>8101-32FH-x64-25.1.2.qcow2\<close>, gives \<open>8101-32FH\<close>.
\<close>

theorem qcow2_extension_not_stripped:
  "has_suffix_ci ''.qcow2'' ''/tmp/w/8000-x64.QCOW2'' \<and>
   extract_platform_from_qcow2_filename ''8000-x64.QCOW2'' = Some ''8000'' \<and>
   map_of QCOW2_TO_PLATFORM ''8000-x64'' = Some ''8201-sys'' \<and>
   extract_platform_from_qcow2_filename ''8000-x64.qcow2'' = Some ''8201-sys'' \<and>
   extract_platform_from_qcow2_filename ''8101-32FH-x64-25.1.2.qcow2'' = Some ''8101-32FH''"
  by code_simp

end
